theory Spec2Isabelle
  imports Main
begin

section \<open>JavaScript values\<close>

text \<open>
  The values \<^verbatim>\<open>lib/application.js\<close> tells apart: it tests truthiness (\<^verbatim>\<open>a || b\<close>,
  \<^verbatim>\<open>if (x)\<close>), \<^verbatim>\<open>typeof fn === 'function'\<close>, whether a thrown value is a native error,
  \<^verbatim>\<open>body == null\<close>, \<^verbatim>\<open>Buffer.isBuffer\<close>, \<^verbatim>\<open>typeof body === 'string'\<close> and
  \<^verbatim>\<open>body instanceof Stream\<close>. Numbers are integers here (fractions are left out), strings
  are the bytes of their UTF-8 encoding, so that \<^verbatim>\<open>Buffer.byteLength\<close> is \<open>length\<close>.
  Objects live in a store and are referred to by address.
\<close>

type_synonym addr = nat

text \<open>Function values: the methods and the imported \<^verbatim>\<open>compose\<close> that the constructor and
  \<^verbatim>\<open>callback\<close> store as values, and the functions of the caller.\<close>

datatype fn = StockCompose | AppOnerror | AppInspect | UserFn nat

text \<open>A native error object, with the properties \<^verbatim>\<open>onerror\<close> reads.\<close>

record err =
  e_name :: string
  e_message :: string
  e_status :: "int option"
  e_expose :: bool
  e_stack :: "string option"

datatype jsval =
    Undefined
  | Null
  | JBool bool
  | JNum int
  | JNaN
  | JStr string
  | JFun fn
  | JRef addr
  | JErr err
  | JBuffer string
  | JStream nat

fun truthy :: "jsval \<Rightarrow> bool" where
  "truthy Undefined = False"
| "truthy Null = False"
| "truthy (JBool b) = b"
| "truthy (JNum n) = (n \<noteq> 0)"
| "truthy JNaN = False"
| "truthy (JStr s) = (s \<noteq> [])"
| "truthy (JFun f) = True"
| "truthy (JRef a) = True"
| "truthy (JErr e) = True"
| "truthy (JBuffer b) = True"
| "truthy (JStream s) = True"

text \<open>\<^verbatim>\<open>a || b\<close>\<close>

definition js_or :: "jsval \<Rightarrow> jsval \<Rightarrow> jsval" where
  "js_or a b = (if truthy a then a else b)"

text \<open>\<^verbatim>\<open>v == null\<close>\<close>

definition nullish :: "jsval \<Rightarrow> bool" where
  "nullish v = (v = Undefined \<or> v = Null)"

text \<open>\<^verbatim>\<open>typeof v === 'function'\<close>\<close>

fun is_function :: "jsval \<Rightarrow> bool" where
  "is_function (JFun f) = True"
| "is_function v = False"

text \<open>\<^verbatim>\<open>new TypeError(msg)\<close>; the stack string the runtime captures is left out.\<close>

definition type_error :: "string \<Rightarrow> jsval" where
  "type_error msg =
     JErr \<lparr>e_name = ''TypeError'', e_message = msg, e_status = None, e_expose = False,
           e_stack = None\<rparr>"

text \<open>\<^verbatim>\<open>Error.prototype.toString\<close>\<close>

definition error_toString :: "err \<Rightarrow> string" where
  "error_toString e =
     (if e_name e = [] then e_message e
      else if e_message e = [] then e_name e
      else e_name e @ '': '' @ e_message e)"

text \<open>\<^verbatim>\<open>String(n)\<close> for an integer \<open>n\<close>.\<close>

fun digits :: "nat \<Rightarrow> string" where
  "digits n =
     (if n < 10 then [''0123456789'' ! n]
      else digits (n div 10) @ [''0123456789'' ! (n mod 10)])"

declare digits.simps [simp del]

definition String_num :: "int \<Rightarrow> string" where
  "String_num i = (if i < 0 then CHR ''-'' # digits (nat (- i)) else digits (nat i))"

section \<open>Error Policy: \<^verbatim>\<open>onerror\<close>\<close>

text \<open>
  \<^verbatim>\<open>msg.replace(/^/gm, '  ')\<close>: two spaces at the start of the text and after every line
  terminator (LF, CR, and U+2028, U+2029, which are the bytes E2 80 A8 and E2 80 A9).
  \<open>after_terminators p2 p1 s\<close> walks \<open>s\<close> with the two bytes before it.
\<close>

definition line_end :: "char \<Rightarrow> char \<Rightarrow> char \<Rightarrow> bool" where
  "line_end p2 p1 c =
     (c = CHR 0x0A \<or> c = CHR 0x0D \<or>
      (p2 = CHR 0xE2 \<and> p1 = CHR 0x80 \<and> (c = CHR 0xA8 \<or> c = CHR 0xA9)))"

fun after_terminators :: "char \<Rightarrow> char \<Rightarrow> string \<Rightarrow> string" where
  "after_terminators p2 p1 [] = []"
| "after_terminators p2 p1 (c # cs) =
     (if line_end p2 p1 c then c # ''  '' @ after_terminators p1 c cs
      else c # after_terminators p1 c cs)"

definition indent :: "string \<Rightarrow> string" where
  "indent msg = ''  '' @ after_terminators (CHR 0x00) (CHR 0x00) msg"

text \<open>
  \<^verbatim>\<open>onerror (err)\<close>, lines 251-271. \<open>silent\<close> is the value of \<^verbatim>\<open>this.silent\<close>, \<open>format_j\<close> is
  \<^verbatim>\<open>util.format('%j', _)\<close>. The result is the completion (\<open>Inl\<close> the thrown value) and
  the texts handed to \<^verbatim>\<open>console.error\<close>.
\<close>

definition onerror :: "(jsval \<Rightarrow> string) \<Rightarrow> jsval \<Rightarrow> jsval \<Rightarrow> (jsval + unit) \<times> string list" where
  "onerror format_j silent v =
     (case v of
        JErr e \<Rightarrow>
          if e_status e = Some 404 \<or> e_expose e then (Inr (), [])
          else if truthy silent then (Inr (), [])
          else
            (let msg = (case e_stack e of
                          Some s \<Rightarrow> if s \<noteq> [] then s else error_toString e
                        | None \<Rightarrow> error_toString e)
             in (Inr (), [[CHR 0x0A] @ indent msg @ [CHR 0x0A]]))
      | _ \<Rightarrow> (Inl (type_error (''non-error thrown: '' @ format_j v)), []))"

section \<open>The context, as the dispatcher and the serializer see it\<close>

text \<open>
  \<^verbatim>\<open>respond\<close> and \<^verbatim>\<open>handleRequest\<close> read the context through accessors and write to it
  through setters and through the transport. The accessors live in \<^verbatim>\<open>context.js\<close>,
  \<^verbatim>\<open>request.js\<close> and \<^verbatim>\<open>response.js\<close>, which are not among the sources, so the record
  below has one field for each thing read (the value the accessor yields), and every write
  and every transport call is appended, in order, to \<open>effects\<close>. In each path of
  \<^verbatim>\<open>respond\<close> all reads come before the first write.

  The status code is the exception: \<^verbatim>\<open>handleRequest\<close> stores into \<^verbatim>\<open>res.statusCode\<close>, a
  plain property of the outgoing message, and \<^verbatim>\<open>respond\<close> reads \<^verbatim>\<open>ctx.status\<close>.
\<close>

datatype effect =
    Assign string jsval  \<comment> \<open>\<^verbatim>\<open>ctx.<name> = value\<close>\<close>
  | Remove string  \<comment> \<open>\<^verbatim>\<open>ctx.response.remove(name)\<close>\<close>
  | End "string option"  \<comment> \<open>\<^verbatim>\<open>res.end()\<close>, \<^verbatim>\<open>res.end(bytes)\<close>\<close>
  | Pipe nat  \<comment> \<open>\<^verbatim>\<open>body.pipe(res)\<close>\<close>
  | OnFinished  \<comment> \<open>\<^verbatim>\<open>onFinished(res, onerror)\<close>\<close>

record Context =
  res_statusCode :: int  \<comment> \<open>\<^verbatim>\<open>res.statusCode\<close>\<close>
  res_headersSent :: bool  \<comment> \<open>\<^verbatim>\<open>res.headersSent\<close>\<close>
  req_httpVersionMajor :: int  \<comment> \<open>\<^verbatim>\<open>ctx.req.httpVersionMajor\<close>\<close>
  ctx_respond :: jsval  \<comment> \<open>\<^verbatim>\<open>ctx.respond\<close>\<close>
  ctx_writable :: bool  \<comment> \<open>\<^verbatim>\<open>ctx.writable\<close>\<close>
  ctx_body :: jsval  \<comment> \<open>\<^verbatim>\<open>ctx.body\<close>\<close>
  ctx_method :: string  \<comment> \<open>\<^verbatim>\<open>ctx.method\<close>\<close>
  ctx_message :: string  \<comment> \<open>\<^verbatim>\<open>ctx.message\<close>; \<open>[]\<close> also stands for \<^verbatim>\<open>undefined\<close>, falsy too\<close>
  response_has :: "string \<Rightarrow> bool"  \<comment> \<open>\<^verbatim>\<open>ctx.response.has(name)\<close>\<close>
  response_length :: jsval  \<comment> \<open>\<^verbatim>\<open>ctx.response.length\<close>\<close>
  response_explicitNullBody :: bool  \<comment> \<open>\<^verbatim>\<open>ctx.response._explicitNullBody\<close>\<close>
  effects :: "effect list"

text \<open>Modelled from the spec: \<^verbatim>\<open>ctx.status\<close> (an accessor of \<^verbatim>\<open>response.js\<close>, not among the
  sources) is the status code of the outgoing response, the one \<^verbatim>\<open>handleRequest\<close>
  initialises to 404 "so that middleware that never sets a status still yields a
  meaningful default".\<close>

definition ctx_status :: "Context \<Rightarrow> int" where
  "ctx_status ctx = res_statusCode ctx"

definition emit :: "effect list \<Rightarrow> Context \<Rightarrow> Context" where
  "emit es ctx = ctx\<lparr>effects := effects ctx @ es\<rparr>"

section \<open>Response Serializer: \<^verbatim>\<open>respond\<close>\<close>

text \<open>
  \<^verbatim>\<open>function respond (ctx)\<close>, lines 296-352. \<open>status_empty\<close> is the table \<^verbatim>\<open>statuses.empty\<close> of
  the status registry, \<open>stringify\<close> is \<^verbatim>\<open>JSON.stringify\<close>, which throws (\<open>Inl\<close>), or
  yields \<^verbatim>\<open>undefined\<close> (\<open>Inr None\<close>) or a text. \<^verbatim>\<open>Buffer.byteLength(undefined)\<close> throws a
  TypeError. The value \<^verbatim>\<open>respond\<close> returns is not used by its caller and is left out.
\<close>

definition respond ::
  "(int \<Rightarrow> bool) \<Rightarrow> (jsval \<Rightarrow> jsval + string option) \<Rightarrow> Context \<Rightarrow> (jsval + unit) \<times> Context" where
  "respond status_empty stringify ctx =
     (if ctx_respond ctx = JBool False then (Inr (), ctx)
      else if \<not> ctx_writable ctx then (Inr (), ctx)
      else
        let body = ctx_body ctx; code = ctx_status ctx in
        if status_empty code then (Inr (), emit [Assign ''body'' Null, End None] ctx)
        else if ctx_method ctx = ''HEAD'' then
          (if \<not> res_headersSent ctx \<and> \<not> response_has ctx ''Content-Length'' then
             (case response_length ctx of
                JNum n \<Rightarrow> (Inr (), emit [Assign ''length'' (JNum n), End None] ctx)
              | _ \<Rightarrow> (Inr (), emit [End None] ctx))
           else (Inr (), emit [End None] ctx))
        else if nullish body then
          (if response_explicitNullBody ctx then
             (Inr (), emit [Remove ''Content-Type'', Remove ''Transfer-Encoding'',
                            Assign ''length'' (JNum 0), End None] ctx)
           else
             let fallback =
               (if 2 \<le> req_httpVersionMajor ctx then String_num code
                else if ctx_message ctx \<noteq> [] then ctx_message ctx else String_num code)
             in
               if \<not> res_headersSent ctx then
                 (Inr (), emit [Assign ''type'' (JStr ''text''),
                                Assign ''length'' (JNum (int (length fallback))),
                                End (Some fallback)] ctx)
               else (Inr (), emit [End (Some fallback)] ctx))
        else
          (case body of
             JBuffer b \<Rightarrow> (Inr (), emit [End (Some b)] ctx)
           | JStr s \<Rightarrow> (Inr (), emit [End (Some s)] ctx)
           | JStream s \<Rightarrow> (Inr (), emit [Pipe s] ctx)
           | _ \<Rightarrow>
               (case stringify body of
                  Inl thrown \<Rightarrow> (Inl thrown, ctx)
                | Inr None \<Rightarrow>
                    if \<not> res_headersSent ctx then
                      (Inl (type_error ''Buffer.byteLength: argument must be a string''), ctx)
                    else (Inr (), emit [End None] ctx)
                | Inr (Some text) \<Rightarrow>
                    if \<not> res_headersSent ctx then
                      (Inr (), emit [Assign ''length'' (JNum (int (length text))),
                                     End (Some text)] ctx)
                    else (Inr (), emit [End (Some text)] ctx))))"

section \<open>Request Dispatcher: \<^verbatim>\<open>handleRequest\<close>\<close>

text \<open>
  How a promise ends: it is fulfilled, rejected with a value, or never settles. The
  composed pipeline \<^verbatim>\<open>fnMiddleware\<close> takes the context and returns a promise; it is a
  parameter here, giving the way its promise ends and the context as it has left it.
  \<^verbatim>\<open>ctx.onerror\<close> is a method of \<^verbatim>\<open>context.js\<close>, not among the sources: it is a parameter
  too, a function that may throw (\<open>Inl\<close>) like any other.
\<close>

datatype settled = Fulfilled | Rejected jsval | Pending

type_synonym pipeline = "Context \<Rightarrow> settled \<times> Context"

type_synonym hook = "jsval \<Rightarrow> Context \<Rightarrow> (jsval + unit) \<times> Context"

text \<open>The promise of \<^verbatim>\<open>p.catch(f)\<close> or \<^verbatim>\<open>p.then(f)\<close> once \<open>f\<close> has run: rejected with what
  \<open>f\<close> threw, fulfilled when \<open>f\<close> returned.\<close>

definition settle :: "(jsval + unit) \<times> Context \<Rightarrow> settled \<times> Context" where
  "settle r = (case fst r of Inl thrown \<Rightarrow> (Rejected thrown, snd r) | Inr u \<Rightarrow> (Fulfilled, snd r))"

text \<open>\<^verbatim>\<open>handleRequest (ctx, fnMiddleware)\<close>, lines 208-217.\<close>

definition handleRequest ::
  "(int \<Rightarrow> bool) \<Rightarrow> (jsval \<Rightarrow> jsval + string option) \<Rightarrow> hook \<Rightarrow> Context \<Rightarrow> pipeline
     \<Rightarrow> settled \<times> Context" where
  "handleRequest status_empty stringify ctx_onerror ctx fnMiddleware =
     (let ctx1 = ctx\<lparr>res_statusCode := 404\<rparr>;
          ctx2 = emit [OnFinished] ctx1
      in case fnMiddleware ctx2 of
           (Fulfilled, c) \<Rightarrow>
             (case respond status_empty stringify c of
                (Inr u, c') \<Rightarrow> (Fulfilled, c')
              | (Inl thrown, c') \<Rightarrow> settle (ctx_onerror thrown c'))
         | (Rejected e, c) \<Rightarrow> settle (ctx_onerror e c)
         | (Pending, c) \<Rightarrow> (Pending, c))"

section \<open>The store\<close>

text \<open>
  The Application, the middleware array, the templates, the raw request and response and
  the objects \<^verbatim>\<open>createContext\<close> makes are shared and mutated in place, so they live in a
  store: an object is a prototype and its own properties, an array is its elements.
  Allocation takes the next free address. \<open>listeners\<close> is the listener table of the
  event emitters (the Application extends \<^verbatim>\<open>Emitter\<close>).
\<close>

datatype cell = Obj "addr option" "string \<Rightarrow> jsval option" | Arr "jsval list"

record world =
  heap :: "addr \<Rightarrow> cell option"
  next_addr :: addr
  listeners :: "addr \<Rightarrow> string \<Rightarrow> jsval list"

definition alloc :: "cell \<Rightarrow> world \<Rightarrow> addr \<times> world" where
  "alloc c w =
     (next_addr w, w\<lparr>heap := (heap w)(next_addr w \<mapsto> c), next_addr := Suc (next_addr w)\<rparr>)"

text \<open>An own property.\<close>

definition own :: "world \<Rightarrow> addr \<Rightarrow> string \<Rightarrow> jsval option" where
  "own w a k = (case heap w a of Some (Obj p m) \<Rightarrow> m k | _ \<Rightarrow> None)"

text \<open>\<^verbatim>\<open>o.k\<close>: the own property, else the prototype's. A chain of prototypes is no longer
  than the number of addresses in use, which bounds the search.\<close>

fun get_at :: "nat \<Rightarrow> world \<Rightarrow> addr \<Rightarrow> string \<Rightarrow> jsval" where
  "get_at 0 w a k = Undefined"
| "get_at (Suc n) w a k =
     (case heap w a of
        Some (Obj p m) \<Rightarrow>
          (case m k of
             Some v \<Rightarrow> v
           | None \<Rightarrow> (case p of Some b \<Rightarrow> get_at n w b k | None \<Rightarrow> Undefined))
      | _ \<Rightarrow> Undefined)"

definition get :: "world \<Rightarrow> addr \<Rightarrow> string \<Rightarrow> jsval" where
  "get w a k = get_at (Suc (next_addr w)) w a k"

text \<open>\<^verbatim>\<open>o.k = v\<close> on a plain property.\<close>

definition set_prop :: "addr \<Rightarrow> string \<Rightarrow> jsval \<Rightarrow> world \<Rightarrow> world" where
  "set_prop a k v w =
     (case heap w a of
        Some (Obj p m) \<Rightarrow> w\<lparr>heap := (heap w)(a \<mapsto> Obj p (m(k \<mapsto> v)))\<rparr>
      | _ \<Rightarrow> w)"

text \<open>\<^verbatim>\<open>v.k\<close> for any value \<open>v\<close>; none of the names read here exists on a value that is not
  an object of the store.\<close>

definition property :: "world \<Rightarrow> jsval \<Rightarrow> string \<Rightarrow> jsval" where
  "property w v k = (case v of JRef a \<Rightarrow> get w a k | _ \<Rightarrow> Undefined)"

text \<open>\<^verbatim>\<open>Object.create(proto)\<close>\<close>

definition object_create :: "jsval \<Rightarrow> world \<Rightarrow> (jsval + addr) \<times> world" where
  "object_create proto w =
     (case proto of
        JRef p \<Rightarrow> (let (a, w') = alloc (Obj (Some p) Map.empty) w in (Inr a, w'))
      | Null \<Rightarrow> (let (a, w') = alloc (Obj None Map.empty) w in (Inr a, w'))
      | _ \<Rightarrow> (Inl (type_error ''Object prototype may only be an Object or null''), w))"

text \<open>The elements of the array a value refers to, and of \<^verbatim>\<open>this.middleware\<close>.\<close>

definition array_elements :: "world \<Rightarrow> jsval \<Rightarrow> jsval list option" where
  "array_elements w v =
     (case v of
        JRef a \<Rightarrow> (case heap w a of Some (Arr xs) \<Rightarrow> Some xs | _ \<Rightarrow> None)
      | _ \<Rightarrow> None)"

definition middleware_list :: "world \<Rightarrow> addr \<Rightarrow> jsval list option" where
  "middleware_list w this = array_elements w (get w this ''middleware'')"

definition is_object :: "world \<Rightarrow> addr \<Rightarrow> bool" where
  "is_object w a = (case heap w a of Some (Obj p m) \<Rightarrow> True | _ \<Rightarrow> False)"

section \<open>Application: constructor and introspection\<close>

text \<open>
  What the constructor takes from its surroundings: \<^verbatim>\<open>process.env.NODE_ENV\<close>, whether
  \<^verbatim>\<open>util.inspect.custom\<close> and \<^verbatim>\<open>AsyncLocalStorage\<close> exist, and the three objects exported by
  \<^verbatim>\<open>./context\<close>, \<^verbatim>\<open>./request\<close> and \<^verbatim>\<open>./response\<close>.
\<close>

record node_env =
  NODE_ENV :: jsval
  inspect_custom :: bool
  has_AsyncLocalStorage :: bool
  context_module :: addr
  request_module :: addr
  response_module :: addr

text \<open>
  \<^verbatim>\<open>constructor (options)\<close>, lines 60-104, in two parts: the assignments of lines 61-98,
  then the optional storage of lines 99-103. \<open>options k\<close> is what \<^verbatim>\<open>options.k\<close> yields
  after \<^verbatim>\<open>options = options || {}\<close>: \<open>Undefined\<close> for every \<open>k\<close> when no options were
  given. The methods of the class are not stored: \<^verbatim>\<open>this.inspect\<close> is \<open>JFun AppInspect\<close>
  and \<^verbatim>\<open>this.onerror\<close> is \<open>JFun AppOnerror\<close>. The result is the new Application's
  address, or what the \<^verbatim>\<open>assert\<close> threw.
\<close>

definition constructor_fields :: "node_env \<Rightarrow> (string \<Rightarrow> jsval) \<Rightarrow> world \<Rightarrow> addr \<times> world" where
  "constructor_fields env options w0 =
     (let (this, w) = alloc (Obj None Map.empty) w0;
          w = w\<lparr>listeners := (listeners w)(this := (\<lambda>event. []))\<rparr>;
          w = set_prop this ''proxy'' (js_or (options ''proxy'') (JBool False)) w;
          w = set_prop this ''subdomainOffset'' (js_or (options ''subdomainOffset'') (JNum 2)) w;
          w = set_prop this ''proxyIpHeader''
                (js_or (options ''proxyIpHeader'') (JStr ''X-Forwarded-For'')) w;
          w = set_prop this ''maxIpsCount'' (js_or (options ''maxIpsCount'') (JNum 0)) w;
          w = set_prop this ''env''
                (js_or (js_or (options ''env'') (NODE_ENV env)) (JStr ''development'')) w;
          w = set_prop this ''compose'' (js_or (options ''compose'') (JFun StockCompose)) w;
          w = (if truthy (options ''keys'') then set_prop this ''keys'' (options ''keys'') w
               else w);
          (m, w) = alloc (Arr []) w;
          w = set_prop this ''middleware'' (JRef m) w;
          (c, w) = alloc (Obj (Some (context_module env)) Map.empty) w;
          w = set_prop this ''context'' (JRef c) w;
          (rq, w) = alloc (Obj (Some (request_module env)) Map.empty) w;
          w = set_prop this ''request'' (JRef rq) w;
          (rs, w) = alloc (Obj (Some (response_module env)) Map.empty) w;
          w = set_prop this ''response'' (JRef rs) w;
          w = (if inspect_custom env
               then set_prop this ''[util.inspect.custom]'' (JFun AppInspect) w else w)
      in (this, w))"

definition constructor :: "node_env \<Rightarrow> (string \<Rightarrow> jsval) \<Rightarrow> world \<Rightarrow> (jsval + addr) \<times> world" where
  "constructor env options w0 =
     (let (this, w) = constructor_fields env options w0
      in
        if truthy (options ''asyncLocalStorage'') then
          (if \<not> has_AsyncLocalStorage env then
             (Inl (JErr \<lparr>e_name = ''AssertionError'',
                         e_message = ''Requires node 12.17.0 or higher to enable asyncLocalStorage'',
                         e_status = None, e_expose = False, e_stack = None\<rparr>), w)
           else
             (let (s, w) = alloc (Obj None Map.empty) w
              in (Inr this, set_prop this ''ctxStorage'' (JRef s) w)))
        else (Inr this, w))"

text \<open>
  The imported helper \<^verbatim>\<open>only(obj, keys)\<close> (the package \<^verbatim>\<open>only\<close>): a new object with, for
  each key in turn, \<^verbatim>\<open>obj[key]\<close> unless that is \<^verbatim>\<open>null\<close> or \<^verbatim>\<open>undefined\<close>. The new object
  is given by its properties, in the order they were added.
\<close>

fun only :: "world \<Rightarrow> jsval \<Rightarrow> string list \<Rightarrow> (string \<times> jsval) list" where
  "only w obj [] = []"
| "only w obj (key # keys) =
     (if nullish (property w obj key) then only w obj keys
      else (key, property w obj key) # only w obj keys)"

text \<open>\<^verbatim>\<open>toJSON ()\<close>, lines 130-136, and \<^verbatim>\<open>inspect ()\<close>, lines 145-147.\<close>

definition toJSON :: "addr \<Rightarrow> world \<Rightarrow> (string \<times> jsval) list" where
  "toJSON this w = only w (JRef this) [''subdomainOffset'', ''proxy'', ''env'']"

definition inspect :: "addr \<Rightarrow> world \<Rightarrow> (string \<times> jsval) list" where
  "inspect this w = toJSON this w"

section \<open>Middleware registration: \<^verbatim>\<open>use\<close>\<close>

text \<open>
  \<^verbatim>\<open>use (fn)\<close>, lines 159-164. \<^verbatim>\<open>push\<close> changes the array in place; on a value that is
  not an array the call \<^verbatim>\<open>this.middleware.push\<close> throws. The \<^verbatim>\<open>debug\<close> line writes to the
  debug log only and is left out.
\<close>

definition use :: "jsval \<Rightarrow> addr \<Rightarrow> world \<Rightarrow> (jsval + jsval) \<times> world" where
  "use fn this w =
     (if \<not> is_function fn then (Inl (type_error ''middleware must be a function!''), w)
      else
        (case get w this ''middleware'' of
           JRef a \<Rightarrow>
             (case heap w a of
                Some (Arr xs) \<Rightarrow> (Inr (JRef this), w\<lparr>heap := (heap w)(a \<mapsto> Arr (xs @ [fn]))\<rparr>)
              | _ \<Rightarrow> (Inl (type_error ''this.middleware.push is not a function''), w))
         | _ \<Rightarrow> (Inl (type_error ''this.middleware.push is not a function''), w)))"

section \<open>Context Factory: \<^verbatim>\<open>createContext\<close>\<close>

text \<open>
  \<^verbatim>\<open>createContext (req, res)\<close>, lines 226-242. A chained assignment \<^verbatim>\<open>a.x = b.x = v\<close>
  stores into \<open>b\<close> first. The names assigned are plain properties. \<^verbatim>\<open>{}\<close> is a new object
  without properties.
\<close>

definition createContext :: "addr \<Rightarrow> addr \<Rightarrow> addr \<Rightarrow> world \<Rightarrow> (jsval + addr) \<times> world" where
  "createContext this req res w0 =
     (case object_create (get w0 this ''context'') w0 of
        (Inl thrown, w) \<Rightarrow> (Inl thrown, w)
      | (Inr context, w) \<Rightarrow>
     (case object_create (get w this ''request'') w of
        (Inl thrown, w) \<Rightarrow> (Inl thrown, w)
      | (Inr request, w) \<Rightarrow>
     (let w = set_prop context ''request'' (JRef request) w in
      case object_create (get w this ''response'') w of
        (Inl thrown, w) \<Rightarrow> (Inl thrown, w)
      | (Inr response, w) \<Rightarrow>
     (let w = set_prop context ''response'' (JRef response) w;
          w = set_prop response ''app'' (JRef this) w;
          w = set_prop request ''app'' (JRef this) w;
          w = set_prop context ''app'' (JRef this) w;
          w = set_prop response ''req'' (JRef req) w;
          w = set_prop request ''req'' (JRef req) w;
          w = set_prop context ''req'' (JRef req) w;
          w = set_prop response ''res'' (JRef res) w;
          w = set_prop request ''res'' (JRef res) w;
          w = set_prop context ''res'' (JRef res) w;
          w = set_prop response ''ctx'' (JRef context) w;
          w = set_prop request ''ctx'' (JRef context) w;
          w = set_prop request ''response'' (JRef response) w;
          w = set_prop response ''request'' (JRef request) w;
          url = get w req ''url'';
          w = set_prop request ''originalUrl'' url w;
          w = set_prop context ''originalUrl'' url w;
          (state, w) = alloc (Obj None Map.empty) w;
          w = set_prop context ''state'' (JRef state) w
      in (Inr context, w)))))"

section \<open>Request handler: \<^verbatim>\<open>callback\<close>\<close>

text \<open>
  Modelled from the spec: the accessors of \<^verbatim>\<open>context.js\<close>, \<^verbatim>\<open>request.js\<close> and
  \<^verbatim>\<open>response.js\<close> (not among the sources) present the object made by \<^verbatim>\<open>createContext\<close>
  as the Context of the dispatcher, "the union of a request view and response view over one
  underlying transport pair"; \<open>accessor_view\<close> is that presentation.

  The other collaborators of the handler that \<^verbatim>\<open>callback\<close> returns:
  \<^item> \<open>status_table\<close>, \<open>stringifier\<close> and \<open>onerror_method\<close> are \<^verbatim>\<open>statuses.empty\<close>,
    \<^verbatim>\<open>JSON.stringify\<close> and \<^verbatim>\<open>ctx.onerror\<close>, as above;
  \<^item> \<open>composer_of f\<close> is what calling the function value \<open>f\<close> as \<^verbatim>\<open>this.compose\<close> does.
    It is handed the value of \<^verbatim>\<open>this.middleware\<close>, a reference to the array and not a copy
    of it, and the store; it throws or returns the composed function, which is given the
    store of the moment it is called.
\<close>

type_synonym composed = "world \<Rightarrow> pipeline"

record collaborators =
  status_table :: "int \<Rightarrow> bool"
  stringifier :: "jsval \<Rightarrow> jsval + string option"
  onerror_method :: hook
  accessor_view :: "world \<Rightarrow> addr \<Rightarrow> Context"
  composer_of :: "fn \<Rightarrow> jsval \<Rightarrow> world \<Rightarrow> jsval + composed"

text \<open>\<^verbatim>\<open>this.ctxStorage.run(ctx, async () => await f())\<close> calls \<open>f\<close> with \<open>ctx\<close> as the
  store of the asynchronous scope; its promise ends as the promise of \<open>f\<close> does.\<close>

definition ctxStorage_run :: "addr \<Rightarrow> settled \<times> Context \<Rightarrow> settled \<times> Context" where
  "ctxStorage_run ctx promise = promise"

text \<open>The arrow function \<^verbatim>\<open>handleRequest\<close> of \<^verbatim>\<open>callback\<close>, lines 181-190, closed over
  \<^verbatim>\<open>this\<close> and \<^verbatim>\<open>fn\<close>.\<close>

definition handleRequest_closure ::
  "collaborators \<Rightarrow> addr \<Rightarrow> composed \<Rightarrow> addr \<Rightarrow> addr \<Rightarrow> world
     \<Rightarrow> (jsval + settled \<times> Context) \<times> world" where
  "handleRequest_closure X this fn req res w0 =
     (case createContext this req res w0 of
        (Inl thrown, w) \<Rightarrow> (Inl thrown, w)
      | (Inr ctx, w) \<Rightarrow>
          if \<not> truthy (get w this ''ctxStorage'') then
            (Inr (handleRequest (status_table X) (stringifier X) (onerror_method X)
                    (accessor_view X w ctx) (fn w)), w)
          else
            (Inr (ctxStorage_run ctx
                    (handleRequest (status_table X) (stringifier X) (onerror_method X)
                       (accessor_view X w ctx) (fn w))), w))"

text \<open>\<^verbatim>\<open>callback ()\<close>, lines 174-193.\<close>

definition callback ::
  "collaborators \<Rightarrow> addr \<Rightarrow> world
     \<Rightarrow> (jsval + (addr \<Rightarrow> addr \<Rightarrow> world \<Rightarrow> (jsval + settled \<times> Context) \<times> world)) \<times> world" where
  "callback X this w =
     (case get w this ''compose'' of
        JFun f \<Rightarrow>
          (case composer_of X f (get w this ''middleware'') w of
             Inl thrown \<Rightarrow> (Inl thrown, w)
           | Inr fn \<Rightarrow>
               (let w' =
                  (if listeners w this ''error'' = [] then
                     w\<lparr>listeners := (listeners w)
                          (this := (listeners w this)
                             (''error'' := listeners w this ''error'' @ [JFun AppOnerror]))\<rparr>
                   else w)
                in (Inr (handleRequest_closure X this fn), w')))
      | _ \<Rightarrow> (Inl (type_error ''this.compose is not a function''), w))"

section \<open>Composition strategies\<close>

text \<open>
  Modelled from the spec: composition (the imported package \<^verbatim>\<open>koa-compose\<close>, or the function
  given in the options) "executes middleware in registration order using
  continuation-passing: invoking middleware i passes it a next callback that, when called,
  invokes middleware i+1; the chain's implicit terminal step resolves immediately".
  \<open>sem f\<close> is the middleware \<open>f\<close> as a function of its \<^verbatim>\<open>next\<close>. The guard against a
  second call of \<^verbatim>\<open>next\<close> is left out.
\<close>

fun chain :: "(fn \<Rightarrow> pipeline \<Rightarrow> pipeline) \<Rightarrow> jsval list \<Rightarrow> pipeline" where
  "chain sem [] c = (Fulfilled, c)"
| "chain sem (JFun f # rest) c = sem f (chain sem rest) c"
| "chain sem (v # rest) c = (Rejected (type_error ''fn is not a function''), c)"

text \<open>A strategy that copies the list it is given when it composes, and one that keeps the
  reference and looks the array up each time the composed function is called.\<close>

definition copying_compose :: "(jsval list \<Rightarrow> pipeline) \<Rightarrow> jsval \<Rightarrow> world \<Rightarrow> jsval + composed" where
  "copying_compose run middleware w =
     (case array_elements w middleware of
        Some xs \<Rightarrow> Inr (\<lambda>w'. run xs)
      | None \<Rightarrow> Inl (type_error ''Middleware stack must be an array!''))"

definition live_compose :: "(jsval list \<Rightarrow> pipeline) \<Rightarrow> jsval \<Rightarrow> world \<Rightarrow> jsval + composed" where
  "live_compose run middleware w =
     (case array_elements w middleware of
        Some xs \<Rightarrow>
          Inr (\<lambda>w'. run (case array_elements w' middleware of Some ys \<Rightarrow> ys | None \<Rightarrow> []))
      | None \<Rightarrow> Inl (type_error ''Middleware stack must be an array!''))"

section \<open>Applications in the store\<close>

text \<open>
  What the constructor establishes and \<^verbatim>\<open>use\<close>, \<^verbatim>\<open>callback\<close> and \<^verbatim>\<open>createContext\<close> keep:
  the Application is an object in use; \<^verbatim>\<open>subdomainOffset\<close>, \<^verbatim>\<open>proxy\<close> and \<^verbatim>\<open>env\<close> are set
  (not \<^verbatim>\<open>null\<close>, not \<^verbatim>\<open>undefined\<close>); \<^verbatim>\<open>middleware\<close> refers to an array; \<^verbatim>\<open>context\<close>,
  \<^verbatim>\<open>request\<close> and \<^verbatim>\<open>response\<close> refer to the templates. Addresses in use are below
  \<open>next_addr\<close>.
\<close>

definition setting_present :: "world \<Rightarrow> addr \<Rightarrow> string \<Rightarrow> bool" where
  "setting_present w this k = (case own w this k of Some v \<Rightarrow> \<not> nullish v | None \<Rightarrow> False)"

definition template_present :: "world \<Rightarrow> addr \<Rightarrow> string \<Rightarrow> bool" where
  "template_present w this k =
     (case own w this k of Some (JRef t) \<Rightarrow> t < next_addr w | _ \<Rightarrow> False)"

definition application :: "world \<Rightarrow> addr \<Rightarrow> bool" where
  "application w this =
     (this < next_addr w \<and> is_object w this \<and>
      setting_present w this ''subdomainOffset'' \<and> setting_present w this ''proxy'' \<and>
      setting_present w this ''env'' \<and>
      (case own w this ''middleware'' of
         Some (JRef m) \<Rightarrow> m < next_addr w \<and> array_elements w (JRef m) \<noteq> None
       | _ \<Rightarrow> False) \<and>
      template_present w this ''context'' \<and> template_present w this ''request'' \<and>
      template_present w this ''response'')"

text \<open>A raw pair handed over by the transport: two objects in use, the request with its
  \<^verbatim>\<open>url\<close>.\<close>

definition transport_pair :: "world \<Rightarrow> addr \<Rightarrow> addr \<Rightarrow> bool" where
  "transport_pair w req res =
     (req < next_addr w \<and> res < next_addr w \<and> is_object w req \<and> is_object w res \<and>
      own w req ''url'' \<noteq> None)"

text \<open>An object without a prototype, such as \<^verbatim>\<open>{}\<close> here.\<close>

definition plain :: "world \<Rightarrow> addr \<Rightarrow> bool" where
  "plain w a = (case heap w a of Some (Obj None m) \<Rightarrow> True | _ \<Rightarrow> False)"

section \<open>Concrete inputs\<close>

text \<open>The \<^verbatim>\<open>empty\<close> table of the package \<^verbatim>\<open>statuses\<close>.\<close>

definition std_empty :: "int \<Rightarrow> bool" where
  "std_empty code = (code = 204 \<or> code = 205 \<or> code = 304)"

text \<open>A GET request over HTTP/1.1 whose response nobody has touched yet.\<close>

definition fresh_ctx :: Context where
  "fresh_ctx =
     \<lparr>res_statusCode = 200, res_headersSent = False, req_httpVersionMajor = 1,
      ctx_respond = Undefined, ctx_writable = True, ctx_body = Undefined,
      ctx_method = ''GET'', ctx_message = ''Not Found'', response_has = (\<lambda>name. False),
      response_length = Undefined, response_explicitNullBody = False, effects = []\<rparr>"

definition json_undefined :: "jsval \<Rightarrow> jsval + string option" where
  "json_undefined v = Inr None"


definition format_plain :: "jsval \<Rightarrow> string" where
  "format_plain v = (case v of JStr s \<Rightarrow> s | _ \<Rightarrow> ''?'')"


definition quiet_hook :: hook where
  "quiet_hook e c = (Inr (), emit [Assign ''status'' (JNum 500)] c)"

definition rejecting :: "jsval \<Rightarrow> pipeline" where
  "rejecting e c = (Rejected e, c)"

definition passing :: pipeline where
  "passing c = (Fulfilled, c)"

definition err500 :: err where
  "err500 =
     \<lparr>e_name = ''Error'', e_message = ''kaboom'', e_status = Some 500, e_expose = False,
      e_stack = Some (''Error: kaboom'' @ [CHR 0x0A] @ ''    at app.js:1'')\<rparr>"

text \<open>The middleware \<^verbatim>\<open>async (ctx, next) => { ctx.body = 'hello'; await next() }\<close>.\<close>

definition greeter :: "fn \<Rightarrow> pipeline \<Rightarrow> pipeline" where
  "greeter f next c = next (c\<lparr>res_statusCode := 200, ctx_body := JStr ''hello''\<rparr>)"

definition example_collaborators :: "(jsval \<Rightarrow> world \<Rightarrow> jsval + composed) \<Rightarrow> collaborators" where
  "example_collaborators strategy =
     \<lparr>status_table = std_empty, stringifier = json_undefined, onerror_method = quiet_hook,
      accessor_view = (\<lambda>w ctx. fresh_ctx), composer_of = (\<lambda>f. strategy)\<rparr>"

text \<open>A store with the three exported templates at 0, 1 and 2 and two raw pairs, at 3, 4
  and at 5, 6.\<close>

definition example_env :: node_env where
  "example_env =
     \<lparr>NODE_ENV = Undefined, inspect_custom = True, has_AsyncLocalStorage = True,
      context_module = 0, request_module = 1, response_module = 2\<rparr>"

definition boot_world :: world where
  "boot_world =
     \<lparr>heap = [0 \<mapsto> Obj None Map.empty, 1 \<mapsto> Obj None Map.empty, 2 \<mapsto> Obj None Map.empty,
              3 \<mapsto> Obj None [''url'' \<mapsto> JStr ''/a''], 4 \<mapsto> Obj None Map.empty,
              5 \<mapsto> Obj None [''url'' \<mapsto> JStr ''/b''], 6 \<mapsto> Obj None Map.empty],
      next_addr = 7, listeners = (\<lambda>a event. [])\<rparr>"

definition no_options :: "string \<Rightarrow> jsval" where
  "no_options k = Undefined"

definition falsy_options :: "string \<Rightarrow> jsval" where
  "falsy_options k =
     (if k = ''subdomainOffset'' then JNum 0
      else if k = ''proxyIpHeader'' then JStr []
      else if k = ''env'' then JStr []
      else Undefined)"

text \<open>The store after \<^verbatim>\<open>new Application()\<close> in \<open>boot_world\<close>; the Application is at 7,
  its middleware array at 8.\<close>

definition app_world :: world where
  "app_world = snd (constructor example_env no_options boot_world)"

text \<open>Calling what \<^verbatim>\<open>callback\<close> returned; when \<^verbatim>\<open>callback\<close> threw there is no handler, and
  \<open>handler_of\<close> stands for that by throwing the same value.\<close>

definition handler_of ::
  "jsval + (addr \<Rightarrow> addr \<Rightarrow> world \<Rightarrow> (jsval + settled \<times> Context) \<times> world)
     \<Rightarrow> addr \<Rightarrow> addr \<Rightarrow> world \<Rightarrow> (jsval + settled \<times> Context) \<times> world" where
  "handler_of r = (case r of Inr h \<Rightarrow> h | Inl thrown \<Rightarrow> (\<lambda>req res w. (Inl thrown, w)))"

text \<open>The collaborators of the examples, with a strategy that keeps the reference to the
  array and runs the middleware it finds there in a chain.\<close>

definition live_app :: collaborators where
  "live_app = example_collaborators (live_compose (chain greeter))"

text \<open>The same with a strategy that copies the list when it composes.\<close>

definition copy_app :: collaborators where
  "copy_app = example_collaborators (copying_compose (chain greeter))"

section \<open>Properties of the Error Policy\<close>

text \<open>
  Claim C4. The default error hook \<^verbatim>\<open>onerror\<close> throws a TypeError when it is given a value
  that is not a native error object. Given a native error it returns, and it writes no
  diagnostic exactly when the error's status is 404, or the error is marked expose, or the
  application is silent; in every other case it writes one text to the error channel: the
  stack (the string form of the error when the stack is missing or empty), indented, between
  two line feeds.
\<close>

theorem onerror_policy:
  "((\<forall>e. v \<noteq> JErr e) \<longrightarrow>
      onerror fj silent v = (Inl (type_error (''non-error thrown: '' @ fj v)), [])) \<and>
   fst (onerror fj silent (JErr e)) = Inr () \<and>
   (snd (onerror fj silent (JErr e)) = [] \<longleftrightarrow>
      e_status e = Some 404 \<or> e_expose e \<or> truthy silent) \<and>
   (\<not> (e_status e = Some 404 \<or> e_expose e \<or> truthy silent) \<longrightarrow>
      snd (onerror fj silent (JErr e)) =
        [[CHR 0x0A] @
         indent (case e_stack e of
                   Some s \<Rightarrow> if s \<noteq> [] then s else error_toString e
                 | None \<Rightarrow> error_toString e) @
         [CHR 0x0A]])"
proof -
  have "(\<forall>e. v \<noteq> JErr e) \<longrightarrow>
      onerror fj silent v = (Inl (type_error (''non-error thrown: '' @ fj v)), [])"
    by (cases v) (simp_all add: onerror_def)
  moreover have "fst (onerror fj silent (JErr e)) = Inr ()"
    by (simp add: onerror_def Let_def)
  moreover have "snd (onerror fj silent (JErr e)) = [] \<longleftrightarrow>
      e_status e = Some 404 \<or> e_expose e \<or> truthy silent"
    by (simp add: onerror_def Let_def)
  moreover have "\<not> (e_status e = Some 404 \<or> e_expose e \<or> truthy silent) \<longrightarrow>
      snd (onerror fj silent (JErr e)) =
        [[CHR 0x0A] @
         indent (case e_stack e of
                   Some s \<Rightarrow> if s \<noteq> [] then s else error_toString e
                 | None \<Rightarrow> error_toString e) @
         [CHR 0x0A]]"
    by (simp add: onerror_def Let_def)
  ultimately show ?thesis by blast
qed

theorem onerror_policy_witness:
  "onerror format_plain Undefined (JStr ''boom'') =
     (Inl (type_error ''non-error thrown: boom''), []) \<and>
   snd (onerror format_plain Undefined (JErr err500)) =
     [[CHR 0x0A] @ ''  Error: kaboom'' @ [CHR 0x0A] @ ''      at app.js:1'' @ [CHR 0x0A]] \<and>
   snd (onerror format_plain Undefined (JErr (err500\<lparr>e_status := Some 404\<rparr>))) = [] \<and>
   snd (onerror format_plain (JBool True) (JErr err500)) = []"
  using onerror_policy [of "JStr ''boom''" format_plain Undefined err500]
    onerror_policy [of Undefined format_plain Undefined "err500\<lparr>e_status := Some 404\<rparr>"]
    onerror_policy [of Undefined format_plain "JBool True" err500]
  by (simp add: format_plain_def err500_def indent_def line_end_def)

section \<open>Properties of the Response Serializer\<close>

text \<open>
  Claim C2. For a context that reaches the serializer with a body that is \<^verbatim>\<open>null\<close> or
  \<^verbatim>\<open>undefined\<close> and no explicit-null marker (the status is not body-less, the method is not
  HEAD, respond is not bypassed, the transport is writable): the fallback body is the
  stringified status code when the major HTTP version is at least 2, else the message text
  of the status or, when that is empty, the stringified status code. When the headers are
  not yet sent the type is set to text and the length to the byte length of the fallback
  body, and then the response is ended with it; nothing else is done.
\<close>

theorem respond_fallback_body:
  assumes "nullish (ctx_body ctx)" and "\<not> response_explicitNullBody ctx"
    and "\<not> status_empty (ctx_status ctx)" and "ctx_method ctx \<noteq> ''HEAD''"
    and "ctx_respond ctx \<noteq> JBool False" and "ctx_writable ctx"
  shows "let fallback =
           (if 2 \<le> req_httpVersionMajor ctx then String_num (ctx_status ctx)
            else if ctx_message ctx \<noteq> [] then ctx_message ctx
            else String_num (ctx_status ctx))
         in respond status_empty stringify ctx =
              (Inr (),
               emit ((if res_headersSent ctx then []
                      else [Assign ''type'' (JStr ''text''),
                            Assign ''length'' (JNum (int (length fallback)))]) @
                     [End (Some fallback)]) ctx)"
  using assms by (simp add: respond_def Let_def)

theorem respond_fallback_body_witness:
  "effects (snd (respond std_empty json_undefined (fresh_ctx\<lparr>res_statusCode := 404\<rparr>))) =
     [Assign ''type'' (JStr ''text''), Assign ''length'' (JNum 9), End (Some ''Not Found'')] \<and>
   effects (snd (respond std_empty json_undefined
       (fresh_ctx\<lparr>res_statusCode := 404, req_httpVersionMajor := 2\<rparr>))) =
     [Assign ''type'' (JStr ''text''), Assign ''length'' (JNum 3), End (Some ''404'')]"
  using respond_fallback_body [of "fresh_ctx\<lparr>res_statusCode := 404\<rparr>" std_empty json_undefined]
    respond_fallback_body [of "fresh_ctx\<lparr>res_statusCode := 404, req_httpVersionMajor := 2\<rparr>"
      std_empty json_undefined]
  by (simp add: fresh_ctx_def std_empty_def nullish_def ctx_status_def emit_def String_num_def
      digits.simps Let_def)

text \<open>
  Claim C3. For a context whose status code is in the no-body class of the status registry,
  which does not bypass response handling and whose transport is writable, the serializer
  sets the body of the context to \<^verbatim>\<open>null\<close> and ends the response without any bytes,
  whatever body was set.
\<close>

theorem respond_empty_status:
  assumes "status_empty (ctx_status ctx)" and "ctx_respond ctx \<noteq> JBool False"
    and "ctx_writable ctx"
  shows "respond status_empty stringify ctx =
           (Inr (), emit [Assign ''body'' Null, End None] ctx) \<and>
         effects (snd (respond status_empty stringify (ctx\<lparr>ctx_body := b\<rparr>))) =
           effects ctx @ [Assign ''body'' Null, End None]"
  using assms by (simp add: respond_def Let_def ctx_status_def emit_def)

theorem respond_empty_status_witness:
  "effects (snd (respond std_empty json_undefined
       (fresh_ctx\<lparr>res_statusCode := 204, ctx_body := JStr ''hello''\<rparr>))) =
     [Assign ''body'' Null, End None] \<and>
   effects (snd (respond std_empty json_undefined
       (fresh_ctx\<lparr>res_statusCode := 304, ctx_body := JBuffer ''abc''\<rparr>))) =
     [Assign ''body'' Null, End None]"
  using respond_empty_status [of std_empty "fresh_ctx\<lparr>res_statusCode := 204\<rparr>" json_undefined
      "JStr ''hello''"]
    respond_empty_status [of std_empty "fresh_ctx\<lparr>res_statusCode := 304\<rparr>" json_undefined
      "JBuffer ''abc''"]
  by (simp add: fresh_ctx_def std_empty_def ctx_status_def)

section \<open>Properties of the Request Dispatcher\<close>

text \<open>
  Claim C1. \<^verbatim>\<open>handleRequest\<close> sets the status of the outgoing response to 404 before the
  composed pipeline runs: the pipeline is given a context whose status is 404. When the
  promise of the pipeline is fulfilled, the context it left is handed to \<^verbatim>\<open>respond\<close>; when
  it is rejected, the error is handed to the \<^verbatim>\<open>onerror\<close> method of the context and
  \<^verbatim>\<open>respond\<close> is not run.
\<close>

theorem handleRequest_dispatch:
  "let started = emit [OnFinished] (ctx\<lparr>res_statusCode := 404\<rparr>) in
     ctx_status started = 404 \<and>
     (\<forall>c. fnMiddleware started = (Fulfilled, c) \<longrightarrow>
        handleRequest status_empty stringify ctx_onerror ctx fnMiddleware =
          (case respond status_empty stringify c of
             (Inr u, c') \<Rightarrow> (Fulfilled, c')
           | (Inl thrown, c') \<Rightarrow> settle (ctx_onerror thrown c'))) \<and>
     (\<forall>e c. fnMiddleware started = (Rejected e, c) \<longrightarrow>
        handleRequest status_empty stringify ctx_onerror ctx fnMiddleware =
          settle (ctx_onerror e c))"
  by (simp add: handleRequest_def Let_def ctx_status_def emit_def)

theorem handleRequest_dispatch_witness:
  "handleRequest std_empty json_undefined quiet_hook fresh_ctx passing =
     (Fulfilled,
      fresh_ctx\<lparr>res_statusCode := 404,
        effects := [OnFinished, Assign ''type'' (JStr ''text''), Assign ''length'' (JNum 9),
                    End (Some ''Not Found'')]\<rparr>) \<and>
   handleRequest std_empty json_undefined quiet_hook fresh_ctx (rejecting (JErr err500)) =
     (Fulfilled,
      fresh_ctx\<lparr>res_statusCode := 404,
        effects := [OnFinished, Assign ''status'' (JNum 500)]\<rparr>)"
  using handleRequest_dispatch [of fresh_ctx passing std_empty json_undefined quiet_hook]
    handleRequest_dispatch [of fresh_ctx "rejecting (JErr err500)" std_empty json_undefined
      quiet_hook]
  by (simp add: Let_def passing_def rejecting_def quiet_hook_def settle_def respond_def
      fresh_ctx_def emit_def std_empty_def ctx_status_def nullish_def)




section \<open>Properties of the store\<close>

lemma get_own: "own w a k = Some v \<Longrightarrow> get w a k = v"
  by (auto simp: get_def own_def split: option.splits cell.splits)

lemma fst_alloc [simp]: "fst (alloc c w) = next_addr w"
  by (simp add: alloc_def)

lemma next_addr_alloc [simp]: "next_addr (snd (alloc c w)) = Suc (next_addr w)"
  by (simp add: alloc_def)

lemma next_addr_set_prop [simp]: "next_addr (set_prop a k v w) = next_addr w"
  by (simp add: set_prop_def split: option.splits cell.splits)

lemma is_object_set_prop [simp]: "is_object (set_prop a k v w) b = is_object w b"
  by (simp add: set_prop_def is_object_def split: option.splits cell.splits)

lemma is_object_alloc [simp]:
  "is_object (snd (alloc c w)) b =
     (if b = next_addr w then (case c of Obj p m \<Rightarrow> True | Arr xs \<Rightarrow> False) else is_object w b)"
  by (simp add: alloc_def is_object_def)

lemma own_set_prop [simp]:
  "own (set_prop a k v w) b j = (if b = a \<and> j = k \<and> is_object w a then Some v else own w b j)"
  by (auto simp: set_prop_def own_def is_object_def split: option.splits cell.splits)

lemma own_alloc [simp]:
  "own (snd (alloc c w)) b j =
     (if b = next_addr w then (case c of Obj p m \<Rightarrow> m j | Arr xs \<Rightarrow> None) else own w b j)"
  by (simp add: alloc_def own_def)

lemma own_listeners [simp]: "own (w\<lparr>listeners := l\<rparr>) a k = own w a k"
  by (simp add: own_def)

lemma is_object_listeners [simp]: "is_object (w\<lparr>listeners := l\<rparr>) a = is_object w a"
  by (simp add: is_object_def)

lemma array_elements_set_prop [simp]:
  "array_elements (set_prop a k v w) x = array_elements w x"
  by (auto simp: array_elements_def set_prop_def split: jsval.splits option.splits cell.splits)

lemma array_elements_alloc [simp]:
  "array_elements (snd (alloc c w)) (JRef b) =
     (if b = next_addr w then (case c of Obj p m \<Rightarrow> None | Arr xs \<Rightarrow> Some xs)
      else array_elements w (JRef b))"
  by (simp add: array_elements_def alloc_def split: cell.splits)

lemma array_elements_listeners [simp]:
  "array_elements (w\<lparr>listeners := l\<rparr>) x = array_elements w x"
  by (simp add: array_elements_def split: jsval.splits)

lemma fst_constructor_fields [simp]: "fst (constructor_fields env options w0) = next_addr w0"
  by (simp add: constructor_fields_def Let_def split_def)

lemma next_addr_constructor_fields [simp]:
  "next_addr (snd (constructor_fields env options w0)) = next_addr w0 + 5"
  by (simp add: constructor_fields_def Let_def split_def)

lemma is_object_constructor_fields [simp]:
  "is_object (snd (constructor_fields env options w0)) (next_addr w0)"
  by (simp add: constructor_fields_def Let_def split_def)

lemma own_constructor_fields:
  "own (snd (constructor_fields env options w0)) (next_addr w0) ''proxy'' =
     Some (js_or (options ''proxy'') (JBool False))"
  "own (snd (constructor_fields env options w0)) (next_addr w0) ''subdomainOffset'' =
     Some (js_or (options ''subdomainOffset'') (JNum 2))"
  "own (snd (constructor_fields env options w0)) (next_addr w0) ''proxyIpHeader'' =
     Some (js_or (options ''proxyIpHeader'') (JStr ''X-Forwarded-For''))"
  "own (snd (constructor_fields env options w0)) (next_addr w0) ''maxIpsCount'' =
     Some (js_or (options ''maxIpsCount'') (JNum 0))"
  "own (snd (constructor_fields env options w0)) (next_addr w0) ''env'' =
     Some (js_or (js_or (options ''env'') (NODE_ENV env)) (JStr ''development''))"
  "own (snd (constructor_fields env options w0)) (next_addr w0) ''compose'' =
     Some (js_or (options ''compose'') (JFun StockCompose))"
  "own (snd (constructor_fields env options w0)) (next_addr w0) ''keys'' =
     (if truthy (options ''keys'') then Some (options ''keys'') else None)"
  "own (snd (constructor_fields env options w0)) (next_addr w0) ''middleware'' =
     Some (JRef (Suc (next_addr w0)))"
  "own (snd (constructor_fields env options w0)) (next_addr w0) ''context'' =
     Some (JRef (Suc (Suc (next_addr w0))))"
  "own (snd (constructor_fields env options w0)) (next_addr w0) ''request'' =
     Some (JRef (Suc (Suc (Suc (next_addr w0)))))"
  "own (snd (constructor_fields env options w0)) (next_addr w0) ''response'' =
     Some (JRef (Suc (Suc (Suc (Suc (next_addr w0))))))"
  "own (snd (constructor_fields env options w0)) (next_addr w0) ''ctxStorage'' = None"
  by (simp_all add: constructor_fields_def Let_def split_def own_def[of w0])

lemma array_constructor_fields [simp]:
  "array_elements (snd (constructor_fields env options w0)) (JRef (Suc (next_addr w0))) = Some []"
  by (simp add: constructor_fields_def Let_def split_def)

lemma constructor_this:
  assumes "constructor env options w0 = (Inr this, w)"
  shows "this = next_addr w0"
  using assms by (auto simp: constructor_def Let_def split_def split: if_splits)

lemma constructor_own:
  assumes "constructor env options w0 = (Inr this, w)" and "k \<noteq> ''ctxStorage''"
  shows "own w (next_addr w0) k = own (snd (constructor_fields env options w0)) (next_addr w0) k"
  using assms by (auto simp: constructor_def Let_def split_def split: if_splits)

lemma constructor_store:
  assumes "constructor env options w0 = (Inr this, w)"
  shows "next_addr w0 + 5 \<le> next_addr w" and "is_object w (next_addr w0)"
    and "array_elements w (JRef (Suc (next_addr w0))) = Some []"
  using assms by (auto simp: constructor_def Let_def split_def split: if_splits)

lemma js_or_nullish: "nullish (js_or a b) = (\<not> truthy a \<and> nullish b)"
  by (cases a) (auto simp: js_or_def nullish_def)

lemma nullish_simps [simp]:
  "nullish (JNum n) = False" "nullish (JBool f) = False" "nullish (JStr x) = False"
  "nullish (JFun g) = False" "nullish (JRef r) = False" "nullish Undefined" "nullish Null"
  by (simp_all add: nullish_def)

lemma constructor_application:
  assumes "constructor env options w0 = (Inr this, w)"
  shows "application w this"
proof -
  note c = constructor_own [OF assms] own_constructor_fields
  note s = constructor_store [OF assms]
  have t: "this = next_addr w0"
    by (rule constructor_this [OF assms])
  have "setting_present w (next_addr w0) ''subdomainOffset''"
    "setting_present w (next_addr w0) ''proxy''"
    "setting_present w (next_addr w0) ''env''"
    by (simp_all add: setting_present_def c js_or_nullish)
  moreover have "template_present w (next_addr w0) ''context''"
    "template_present w (next_addr w0) ''request''"
    "template_present w (next_addr w0) ''response''"
    using s(1) by (simp_all add: template_present_def c)
  moreover have "own w (next_addr w0) ''middleware'' = Some (JRef (Suc (next_addr w0)))"
    by (simp add: c)
  ultimately show ?thesis
    using s by (simp add: application_def t)
qed

lemma constructor_get:
  assumes "constructor env options w0 = (Inr this, w)"
  shows "get w this ''proxy'' = js_or (options ''proxy'') (JBool False)"
    and "get w this ''subdomainOffset'' = js_or (options ''subdomainOffset'') (JNum 2)"
    and "get w this ''proxyIpHeader'' =
           js_or (options ''proxyIpHeader'') (JStr ''X-Forwarded-For'')"
    and "get w this ''maxIpsCount'' = js_or (options ''maxIpsCount'') (JNum 0)"
    and "get w this ''env'' =
           js_or (js_or (options ''env'') (NODE_ENV env)) (JStr ''development'')"
    and "get w this ''compose'' = js_or (options ''compose'') (JFun StockCompose)"
    and "get w this ''middleware'' = JRef (Suc this)"
proof -
  note c = constructor_own [OF assms] own_constructor_fields
  have t: "this = next_addr w0"
    by (rule constructor_this [OF assms])
  show "get w this ''proxy'' = js_or (options ''proxy'') (JBool False)"
    and "get w this ''subdomainOffset'' = js_or (options ''subdomainOffset'') (JNum 2)"
    and "get w this ''proxyIpHeader'' =
           js_or (options ''proxyIpHeader'') (JStr ''X-Forwarded-For'')"
    and "get w this ''maxIpsCount'' = js_or (options ''maxIpsCount'') (JNum 0)"
    and "get w this ''env'' =
           js_or (js_or (options ''env'') (NODE_ENV env)) (JStr ''development'')"
    and "get w this ''compose'' = js_or (options ''compose'') (JFun StockCompose)"
    and "get w this ''middleware'' = JRef (Suc this)"
    unfolding t by (simp_all add: get_own c)
qed

section \<open>Properties of the constructor and of the snapshot\<close>

text \<open>
  Claim C10. In the constructor a falsy option value is replaced by the default, also when
  it was supplied explicitly: \<^verbatim>\<open>subdomainOffset\<close> 0 gives 2, \<^verbatim>\<open>proxyIpHeader\<close> \<^verbatim>\<open>""\<close> gives
  \<^verbatim>\<open>"X-Forwarded-For"\<close>, \<^verbatim>\<open>env\<close> \<^verbatim>\<open>""\<close> gives \<^verbatim>\<open>NODE_ENV\<close> of the environment or
  \<^verbatim>\<open>"development"\<close>. Hence, whatever the options, the \<^verbatim>\<open>subdomainOffset\<close> of the new
  Application is never 0.
\<close>

theorem constructor_defaults:
  assumes "constructor env options w0 = (Inr this, w)"
  shows "(\<not> truthy (options ''proxy'') \<longrightarrow> get w this ''proxy'' = JBool False) \<and>
    (\<not> truthy (options ''subdomainOffset'') \<longrightarrow> get w this ''subdomainOffset'' = JNum 2) \<and>
    (\<not> truthy (options ''proxyIpHeader'') \<longrightarrow>
       get w this ''proxyIpHeader'' = JStr ''X-Forwarded-For'') \<and>
    (\<not> truthy (options ''maxIpsCount'') \<longrightarrow> get w this ''maxIpsCount'' = JNum 0) \<and>
    (\<not> truthy (options ''env'') \<longrightarrow>
       get w this ''env'' = js_or (NODE_ENV env) (JStr ''development'')) \<and>
    (\<not> truthy (options ''compose'') \<longrightarrow> get w this ''compose'' = JFun StockCompose) \<and>
    (options ''subdomainOffset'' = JNum 0 \<longrightarrow> get w this ''subdomainOffset'' = JNum 2) \<and>
    (options ''proxyIpHeader'' = JStr [] \<longrightarrow>
       get w this ''proxyIpHeader'' = JStr ''X-Forwarded-For'') \<and>
    (options ''env'' = JStr [] \<longrightarrow>
       get w this ''env'' = js_or (NODE_ENV env) (JStr ''development'')) \<and>
    get w this ''subdomainOffset'' \<noteq> JNum 0"
  using constructor_get [OF assms] by (auto simp: js_or_def)

lemma constructor_example_ok:
  "fst (constructor example_env falsy_options boot_world) = Inr 7"
  by (simp add: constructor_def Let_def split_def falsy_options_def boot_world_def)

lemma constructor_example:
  "constructor example_env falsy_options boot_world =
     (Inr 7, snd (constructor example_env falsy_options boot_world))"
  by (simp add: prod_eq_iff constructor_example_ok)

theorem constructor_defaults_witness:
  "fst (constructor example_env falsy_options boot_world) = Inr 7 \<and>
   get (snd (constructor example_env falsy_options boot_world)) 7 ''subdomainOffset'' = JNum 2 \<and>
   get (snd (constructor example_env falsy_options boot_world)) 7 ''proxyIpHeader'' =
     JStr ''X-Forwarded-For'' \<and>
   get (snd (constructor example_env falsy_options boot_world)) 7 ''env'' = JStr ''development''"
proof -
  have n: "NODE_ENV example_env = Undefined"
    by (simp add: example_env_def)
  have f: "falsy_options ''subdomainOffset'' = JNum 0" "falsy_options ''proxyIpHeader'' = JStr []"
    "falsy_options ''env'' = JStr []"
    by (simp_all add: falsy_options_def)
  show ?thesis
    using constructor_defaults [OF constructor_example]
    by (simp add: n f js_or_def constructor_example_ok)
qed

lemma get_own_the: "own w a k \<noteq> None \<Longrightarrow> get w a k = the (own w a k)"
  by (auto simp: get_own)

lemma setting_get:
  "setting_present w this k \<Longrightarrow> \<not> nullish (get w this k)"
  by (auto simp: setting_present_def get_own split: option.splits)

lemma application_settings:
  assumes "application w this"
  shows "\<not> nullish (get w this ''subdomainOffset'')" and "\<not> nullish (get w this ''proxy'')"
    and "\<not> nullish (get w this ''env'')"
  using assms by (simp_all add: application_def setting_get)

lemma constructor_plain_ok:
  "fst (constructor example_env no_options boot_world) = Inr 7"
  by (simp add: constructor_def Let_def split_def no_options_def boot_world_def)

lemma constructor_plain:
  "constructor example_env no_options boot_world =
     (Inr 7, snd (constructor example_env no_options boot_world))"
  by (simp add: prod_eq_iff constructor_plain_ok)

lemma app_world_settings:
  "is_object app_world 7"
  "own app_world 7 ''subdomainOffset'' = Some (JNum 2)"
  "own app_world 7 ''proxy'' = Some (JBool False)"
  "own app_world 7 ''env'' = Some (JStr ''development'')"
proof -
  have n: "next_addr boot_world = 7"
    by (simp add: boot_world_def)
  have e: "NODE_ENV example_env = Undefined"
    by (simp add: example_env_def)
  show "is_object app_world 7"
    using constructor_store(2) [OF constructor_plain] by (simp add: n app_world_def)
  show "own app_world 7 ''subdomainOffset'' = Some (JNum 2)"
    "own app_world 7 ''proxy'' = Some (JBool False)"
    "own app_world 7 ''env'' = Some (JStr ''development'')"
    using constructor_own [OF constructor_plain, of "''subdomainOffset''"]
      constructor_own [OF constructor_plain, of "''proxy''"]
      constructor_own [OF constructor_plain, of "''env''"]
    by (simp_all add: n e app_world_def
        own_constructor_fields [of example_env no_options boot_world, unfolded n]
        no_options_def js_or_def)
qed

text \<open>
  Claim C8, as stated (for every Application the snapshot has exactly the three fields
  \<^verbatim>\<open>subdomainOffset\<close>, \<^verbatim>\<open>proxy\<close> and \<^verbatim>\<open>env\<close>, with their current values), fails: \<^verbatim>\<open>only\<close>
  leaves out a key whose value is \<^verbatim>\<open>null\<close> or \<^verbatim>\<open>undefined\<close>, and the settings are
  properties that can be assigned. After \<^verbatim>\<open>app.env = null\<close> on a new Application the
  snapshot has two fields.
\<close>

theorem toJSON_snapshot_counterexample:
  "toJSON 7 (set_prop 7 ''env'' Null app_world) =
     [(''subdomainOffset'', JNum 2), (''proxy'', JBool False)]"
proof -
  have "get (set_prop 7 ''env'' Null app_world) 7 ''subdomainOffset'' = JNum 2"
    "get (set_prop 7 ''env'' Null app_world) 7 ''proxy'' = JBool False"
    "get (set_prop 7 ''env'' Null app_world) 7 ''env'' = Null"
    by (simp_all add: get_own_the app_world_settings)
  then show ?thesis
    by (simp add: toJSON_def property_def)
qed

text \<open>
  Claim C8, amended. For every Application the snapshot returned by \<^verbatim>\<open>toJSON\<close>, and by
  \<^verbatim>\<open>inspect\<close>, has those of the three fields \<^verbatim>\<open>subdomainOffset\<close>, \<^verbatim>\<open>proxy\<close> and \<^verbatim>\<open>env\<close>, in
  this order, whose current value is neither \<^verbatim>\<open>null\<close> nor \<^verbatim>\<open>undefined\<close>, with their current
  values, and no other field. It has exactly the three fields when all three are set, and
  so for every Application as the constructor returns it, whatever the options.
\<close>

theorem toJSON_snapshot:
  "toJSON this w =
     filter (\<lambda>field. \<not> nullish (snd field))
       [(''subdomainOffset'', get w this ''subdomainOffset''),
        (''proxy'', get w this ''proxy''), (''env'', get w this ''env'')] \<and>
   inspect this w = toJSON this w \<and>
   (\<not> nullish (get w this ''subdomainOffset'') \<and> \<not> nullish (get w this ''proxy'') \<and>
    \<not> nullish (get w this ''env'') \<longrightarrow>
      toJSON this w =
        [(''subdomainOffset'', get w this ''subdomainOffset''),
         (''proxy'', get w this ''proxy''), (''env'', get w this ''env'')]) \<and>
   (constructor env options w0 = (Inr this, w) \<longrightarrow>
      toJSON this w =
        [(''subdomainOffset'', get w this ''subdomainOffset''),
         (''proxy'', get w this ''proxy''), (''env'', get w this ''env'')])"
proof -
  have general: "toJSON this w =
     filter (\<lambda>field. \<not> nullish (snd field))
       [(''subdomainOffset'', get w this ''subdomainOffset''),
        (''proxy'', get w this ''proxy''), (''env'', get w this ''env'')]"
    by (simp add: toJSON_def property_def)
  have same: "inspect this w = toJSON this w"
    by (simp add: inspect_def)
  have built: "\<not> nullish (get w this ''subdomainOffset'') \<and> \<not> nullish (get w this ''proxy'') \<and>
      \<not> nullish (get w this ''env'')"
    if "constructor env options w0 = (Inr this, w)"
    using application_settings [OF constructor_application [OF that]] by simp
  show ?thesis
    using general same built by auto
qed

theorem toJSON_snapshot_witness:
  "toJSON 7 app_world =
     [(''subdomainOffset'', JNum 2), (''proxy'', JBool False), (''env'', JStr ''development'')] \<and>
   inspect 7 app_world =
     [(''subdomainOffset'', JNum 2), (''proxy'', JBool False), (''env'', JStr ''development'')] \<and>
   inspect 7 (set_prop 7 ''proxy'' (JBool True) app_world) =
     [(''subdomainOffset'', JNum 2), (''proxy'', JBool True), (''env'', JStr ''development'')]"
proof -
  have g: "get app_world 7 ''subdomainOffset'' = JNum 2" "get app_world 7 ''proxy'' = JBool False"
    "get app_world 7 ''env'' = JStr ''development''"
    "get (set_prop 7 ''proxy'' (JBool True) app_world) 7 ''subdomainOffset'' = JNum 2"
    "get (set_prop 7 ''proxy'' (JBool True) app_world) 7 ''proxy'' = JBool True"
    "get (set_prop 7 ''proxy'' (JBool True) app_world) 7 ''env'' = JStr ''development''"
    by (simp_all add: get_own_the app_world_settings)
  have c: "constructor example_env no_options boot_world = (Inr 7, app_world)"
    using constructor_plain by (simp add: app_world_def)
  show ?thesis
    using toJSON_snapshot [of 7 app_world example_env no_options boot_world]
      toJSON_snapshot [of 7 "set_prop 7 ''proxy'' (JBool True) app_world"] c
    by (simp add: g)
qed

section \<open>Properties of the registration\<close>

lemma get_at_array_update:
  assumes "heap w a = Some (Arr xs)"
  shows "get_at n (w\<lparr>heap := (heap w)(a \<mapsto> Arr ys)\<rparr>) b k = get_at n w b k"
  using assms by (induction n arbitrary: b) (auto split: option.splits cell.splits)

lemma get_array_update:
  assumes "heap w a = Some (Arr xs)"
  shows "get (w\<lparr>heap := (heap w)(a \<mapsto> Arr ys)\<rparr>) b k = get w b k"
  using get_at_array_update [OF assms] by (simp add: get_def del: get_at.simps)

lemma own_array_update:
  assumes "heap w a = Some (Arr xs)"
  shows "own (w\<lparr>heap := (heap w)(a \<mapsto> Arr ys)\<rparr>) b k = own w b k"
  using assms by (auto simp: own_def)

lemma use_result:
  assumes "is_function fn" and "get w this ''middleware'' = JRef a"
    and "heap w a = Some (Arr xs)"
  shows "use fn this w = (Inr (JRef this), w\<lparr>heap := (heap w)(a \<mapsto> Arr (xs @ [fn]))\<rparr>)"
  using assms by (simp add: use_def)

text \<open>
  Claim C5. \<^verbatim>\<open>use(fn)\<close> throws a TypeError when \<open>fn\<close> is not callable and leaves the store,
  and so the middleware list, as it was; when \<open>fn\<close> is callable it appends \<open>fn\<close> to the
  end of the middleware list and returns the Application itself.
\<close>

theorem use_registers:
  "(\<not> is_function fn \<longrightarrow>
      use fn this w = (Inl (type_error ''middleware must be a function!''), w) \<and>
      middleware_list (snd (use fn this w)) this = middleware_list w this) \<and>
   (is_function fn \<and> middleware_list w this = Some xs \<longrightarrow>
      fst (use fn this w) = Inr (JRef this) \<and>
      middleware_list (snd (use fn this w)) this = Some (xs @ [fn]))"
proof -
  have "middleware_list (snd (use fn this w)) this = Some (xs @ [fn])"
    and "fst (use fn this w) = Inr (JRef this)"
    if f: "is_function fn" and m: "middleware_list w this = Some xs"
  proof -
    from m obtain a where a: "get w this ''middleware'' = JRef a" "heap w a = Some (Arr xs)"
      by (auto simp: middleware_list_def array_elements_def
          split: jsval.splits option.splits cell.splits)
    have u: "use fn this w = (Inr (JRef this), w\<lparr>heap := (heap w)(a \<mapsto> Arr (xs @ [fn]))\<rparr>)"
      by (rule use_result [OF f a])
    show "fst (use fn this w) = Inr (JRef this)"
      by (simp add: u)
    show "middleware_list (snd (use fn this w)) this = Some (xs @ [fn])"
      using a by (simp add: u middleware_list_def get_array_update array_elements_def)
  qed
  then show ?thesis
    by (simp add: use_def)
qed

lemma middleware_list_app_world: "middleware_list app_world 7 = Some []"
  using constructor_get(7) [OF constructor_plain] constructor_store(3) [OF constructor_plain]
  by (simp add: middleware_list_def app_world_def boot_world_def)

theorem use_registers_witness:
  "use (JStr ''logger'') 7 app_world =
     (Inl (type_error ''middleware must be a function!''), app_world) \<and>
   fst (use (JFun (UserFn 1)) 7 app_world) = Inr (JRef 7) \<and>
   middleware_list (snd (use (JFun (UserFn 1)) 7 app_world)) 7 = Some [JFun (UserFn 1)]"
  using use_registers [of "JStr ''logger''" 7 app_world "[]"]
    use_registers [of "JFun (UserFn 1)" 7 app_world "[]"]
  by (simp add: middleware_list_app_world)

section \<open>Properties of the Context Factory\<close>

lemma plain_set_prop [simp]: "plain (set_prop a k v w) b = plain w b"
  by (auto simp: set_prop_def plain_def split: option.splits cell.splits)

lemma plain_alloc [simp]:
  "plain (snd (alloc c w)) b =
     (if b = next_addr w then (case c of Obj None m \<Rightarrow> True | _ \<Rightarrow> False) else plain w b)"
  by (simp add: alloc_def plain_def)

lemma get_plain:
  "plain w a \<Longrightarrow> get w a k = (case own w a k of Some v \<Rightarrow> v | None \<Rightarrow> Undefined)"
  by (auto simp: plain_def get_def own_def split: option.splits cell.splits)

lemma object_create_ref:
  "object_create (JRef p) w = (Inr (next_addr w), snd (alloc (Obj (Some p) Map.empty) w))"
  by (simp add: object_create_def alloc_def)

lemma createContext_store:
  assumes c: "own w this ''context'' = Some (JRef pc)"
    and rq: "own w this ''request'' = Some (JRef pr)"
    and rs: "own w this ''response'' = Some (JRef ps)"
    and t: "this < next_addr w" and r: "req < next_addr w"
    and u: "own w req ''url'' = Some url"
  shows "fst (createContext this req res w) = Inr (next_addr w)"
    and "next_addr (snd (createContext this req res w)) = next_addr w + 4"
    and "own (snd (createContext this req res w)) a k =
      (if a = next_addr w then
         (if k = ''state'' then Some (JRef (next_addr w + 3))
          else if k = ''originalUrl'' then Some url
          else if k = ''res'' then Some (JRef res)
          else if k = ''req'' then Some (JRef req)
          else if k = ''app'' then Some (JRef this)
          else if k = ''response'' then Some (JRef (next_addr w + 2))
          else if k = ''request'' then Some (JRef (next_addr w + 1))
          else None)
       else if a = next_addr w + 1 then
         (if k = ''originalUrl'' then Some url
          else if k = ''response'' then Some (JRef (next_addr w + 2))
          else if k = ''ctx'' then Some (JRef (next_addr w))
          else if k = ''res'' then Some (JRef res)
          else if k = ''req'' then Some (JRef req)
          else if k = ''app'' then Some (JRef this)
          else None)
       else if a = next_addr w + 2 then
         (if k = ''request'' then Some (JRef (next_addr w + 1))
          else if k = ''ctx'' then Some (JRef (next_addr w))
          else if k = ''res'' then Some (JRef res)
          else if k = ''req'' then Some (JRef req)
          else if k = ''app'' then Some (JRef this)
          else None)
       else if a = next_addr w + 3 then None
       else own w a k)"
    and "is_object (snd (createContext this req res w)) a =
      (a = next_addr w \<or> a = next_addr w + 1 \<or> a = next_addr w + 2 \<or> a = next_addr w + 3 \<or>
       is_object w a)"
    and "plain (snd (createContext this req res w)) a =
      (a = next_addr w + 3 \<or>
       (a \<noteq> next_addr w \<and> a \<noteq> next_addr w + 1 \<and> a \<noteq> next_addr w + 2 \<and> plain w a))"
    and "a < next_addr w \<Longrightarrow>
      array_elements (snd (createContext this req res w)) (JRef a) = array_elements w (JRef a)"
proof -
  have g: "get w this ''context'' = JRef pc"
    by (simp add: get_own c)
  note defs = createContext_def g object_create_ref Let_def split_def get_own_the rq rs u
  show "fst (createContext this req res w) = Inr (next_addr w)"
    using t r by (simp add: defs)
  show "next_addr (snd (createContext this req res w)) = next_addr w + 4"
    using t r by (simp add: defs)
  show "is_object (snd (createContext this req res w)) a =
      (a = next_addr w \<or> a = next_addr w + 1 \<or> a = next_addr w + 2 \<or> a = next_addr w + 3 \<or>
       is_object w a)"
    using t r by (auto simp add: defs)
  show "plain (snd (createContext this req res w)) a =
      (a = next_addr w + 3 \<or>
       (a \<noteq> next_addr w \<and> a \<noteq> next_addr w + 1 \<and> a \<noteq> next_addr w + 2 \<and> plain w a))"
    using t r by (auto simp add: defs)
  show "array_elements (snd (createContext this req res w)) (JRef a) = array_elements w (JRef a)"
    if "a < next_addr w"
    using t r that by (simp add: defs)
  show "own (snd (createContext this req res w)) a k =
      (if a = next_addr w then
         (if k = ''state'' then Some (JRef (next_addr w + 3))
          else if k = ''originalUrl'' then Some url
          else if k = ''res'' then Some (JRef res)
          else if k = ''req'' then Some (JRef req)
          else if k = ''app'' then Some (JRef this)
          else if k = ''response'' then Some (JRef (next_addr w + 2))
          else if k = ''request'' then Some (JRef (next_addr w + 1))
          else None)
       else if a = next_addr w + 1 then
         (if k = ''originalUrl'' then Some url
          else if k = ''response'' then Some (JRef (next_addr w + 2))
          else if k = ''ctx'' then Some (JRef (next_addr w))
          else if k = ''res'' then Some (JRef res)
          else if k = ''req'' then Some (JRef req)
          else if k = ''app'' then Some (JRef this)
          else None)
       else if a = next_addr w + 2 then
         (if k = ''request'' then Some (JRef (next_addr w + 1))
          else if k = ''ctx'' then Some (JRef (next_addr w))
          else if k = ''res'' then Some (JRef res)
          else if k = ''req'' then Some (JRef req)
          else if k = ''app'' then Some (JRef this)
          else None)
       else if a = next_addr w + 3 then None
       else own w a k)"
    using t r by (simp add: defs)
qed

lemma application_templates:
  assumes "application w this"
  obtains pc pr ps where "own w this ''context'' = Some (JRef pc)"
    and "own w this ''request'' = Some (JRef pr)" and "own w this ''response'' = Some (JRef ps)"
    and "this < next_addr w"
  using assms
  by (auto simp: application_def template_present_def split: option.splits jsval.splits)

lemma transport_url:
  assumes "transport_pair w req res"
  obtains url where "own w req ''url'' = Some url" and "req < next_addr w" and "res < next_addr w"
  using assms by (auto simp: transport_pair_def)

lemma createContext_application:
  assumes a: "application w this" and p: "transport_pair w req res"
  shows "application (snd (createContext this req res w)) this"
    and "transport_pair w req2 res2 \<Longrightarrow> transport_pair (snd (createContext this req res w)) req2 res2"
proof -
  from a obtain pc pr ps where t: "own w this ''context'' = Some (JRef pc)"
    "own w this ''request'' = Some (JRef pr)" "own w this ''response'' = Some (JRef ps)"
    "this < next_addr w"
    by (rule application_templates)
  from p obtain url where u: "own w req ''url'' = Some url" "req < next_addr w"
    by (rule transport_url)
  note s = createContext_store [OF t(1,2,3,4) u(2,1)]
  show "application (snd (createContext this req res w)) this"
    using a t(4)
    by (auto simp: application_def setting_present_def template_present_def s
        split: option.splits jsval.splits)
  show "transport_pair (snd (createContext this req res w)) req2 res2"
    if "transport_pair w req2 res2"
    using that by (auto simp: transport_pair_def s)
qed

text \<open>
  Claim C6. For every Application and every transport pair \<^verbatim>\<open>createContext\<close> returns a new
  context whose \<^verbatim>\<open>app\<close>, \<^verbatim>\<open>request.app\<close> and \<^verbatim>\<open>response.app\<close> refer to the Application; whose
  \<^verbatim>\<open>req\<close> and \<^verbatim>\<open>res\<close>, on the context, the request and the response alike, refer to the raw
  pair given; whose request and response refer to each other and back to the context;
  whose \<^verbatim>\<open>state\<close> is a new object without properties; and whose \<^verbatim>\<open>originalUrl\<close> is the
  \<^verbatim>\<open>url\<close> of the raw request. A second call, on any pair, yields another context with
  another state object, and a store into either state object changes that one and leaves the
  other as it was.
\<close>

theorem createContext_wiring:
  assumes a: "application w this" and p: "transport_pair w req res"
  shows "let ctx = next_addr w; request = ctx + 1; response = ctx + 2; state = ctx + 3;
             w' = snd (createContext this req res w)
         in fst (createContext this req res w) = Inr ctx \<and>
            get w' ctx ''app'' = JRef this \<and> get w' request ''app'' = JRef this \<and>
            get w' response ''app'' = JRef this \<and>
            get w' ctx ''req'' = JRef req \<and> get w' request ''req'' = JRef req \<and>
            get w' response ''req'' = JRef req \<and>
            get w' ctx ''res'' = JRef res \<and> get w' request ''res'' = JRef res \<and>
            get w' response ''res'' = JRef res \<and>
            get w' ctx ''request'' = JRef request \<and> get w' ctx ''response'' = JRef response \<and>
            get w' request ''response'' = JRef response \<and>
            get w' response ''request'' = JRef request \<and>
            get w' request ''ctx'' = JRef ctx \<and> get w' response ''ctx'' = JRef ctx \<and>
            get w' ctx ''state'' = JRef state \<and> is_object w' state \<and>
            (\<forall>k. get w' state k = Undefined) \<and>
            get w' ctx ''originalUrl'' = get w req ''url'' \<and>
            get w' request ''originalUrl'' = get w req ''url'' \<and>
            (\<forall>req2 res2. transport_pair w req2 res2 \<longrightarrow>
               (let ctx2 = ctx + 4; state2 = ctx2 + 3;
                    w'' = snd (createContext this req2 res2 w')
                in fst (createContext this req2 res2 w') = Inr ctx2 \<and> ctx2 \<noteq> ctx \<and>
                   get w'' ctx ''state'' = JRef state \<and> get w'' ctx2 ''state'' = JRef state2 \<and>
                   state2 \<noteq> state \<and>
                   (\<forall>k v j. get (set_prop state k v w'') state k = v \<and>
                            get (set_prop state k v w'') state2 j = get w'' state2 j \<and>
                            get (set_prop state2 k v w'') state2 k = v \<and>
                            get (set_prop state2 k v w'') state j = get w'' state j)))"
proof -
  from a obtain pc pr ps where t: "own w this ''context'' = Some (JRef pc)"
    "own w this ''request'' = Some (JRef pr)" "own w this ''response'' = Some (JRef ps)"
    "this < next_addr w"
    by (rule application_templates)
  from p obtain url where u: "own w req ''url'' = Some url" "req < next_addr w"
    by (rule transport_url)
  note s = createContext_store [OF t(1,2,3,4) u(2,1)]
  define w' where "w' = snd (createContext this req res w)"
  have first: "fst (createContext this req res w) = Inr (next_addr w)"
    by (rule s(1))
  have wiring: "get w' (next_addr w) ''app'' = JRef this"
    "get w' (next_addr w + 1) ''app'' = JRef this"
    "get w' (next_addr w + 2) ''app'' = JRef this"
    "get w' (next_addr w) ''req'' = JRef req"
    "get w' (next_addr w + 1) ''req'' = JRef req"
    "get w' (next_addr w + 2) ''req'' = JRef req"
    "get w' (next_addr w) ''res'' = JRef res"
    "get w' (next_addr w + 1) ''res'' = JRef res"
    "get w' (next_addr w + 2) ''res'' = JRef res"
    "get w' (next_addr w) ''request'' = JRef (next_addr w + 1)"
    "get w' (next_addr w) ''response'' = JRef (next_addr w + 2)"
    "get w' (next_addr w + 1) ''response'' = JRef (next_addr w + 2)"
    "get w' (next_addr w + 2) ''request'' = JRef (next_addr w + 1)"
    "get w' (next_addr w + 1) ''ctx'' = JRef (next_addr w)"
    "get w' (next_addr w + 2) ''ctx'' = JRef (next_addr w)"
    "get w' (next_addr w) ''state'' = JRef (next_addr w + 3)"
    "get w' (next_addr w) ''originalUrl'' = get w req ''url''"
    "get w' (next_addr w + 1) ''originalUrl'' = get w req ''url''"
    unfolding w'_def by (simp_all add: get_own_the s get_own [OF u(1)])
  have state: "is_object w' (next_addr w + 3)" "\<forall>k. get w' (next_addr w + 3) k = Undefined"
    unfolding w'_def by (simp_all add: s get_plain)
  have n': "next_addr w' = next_addr w + 4"
    unfolding w'_def by (rule s(2))
  have a': "application w' this"
    unfolding w'_def by (rule createContext_application(1) [OF a p])
  have second: "fst (createContext this req2 res2 w') = Inr (next_addr w') \<and>
      next_addr w' \<noteq> next_addr w \<and>
      get (snd (createContext this req2 res2 w')) (next_addr w) ''state'' = JRef (next_addr w + 3) \<and>
      get (snd (createContext this req2 res2 w')) (next_addr w') ''state'' =
        JRef (next_addr w' + 3) \<and>
      next_addr w' + 3 \<noteq> next_addr w + 3 \<and>
      (\<forall>k v j.
         get (set_prop (next_addr w + 3) k v (snd (createContext this req2 res2 w')))
           (next_addr w + 3) k = v \<and>
         get (set_prop (next_addr w + 3) k v (snd (createContext this req2 res2 w')))
           (next_addr w' + 3) j =
           get (snd (createContext this req2 res2 w')) (next_addr w' + 3) j \<and>
         get (set_prop (next_addr w' + 3) k v (snd (createContext this req2 res2 w')))
           (next_addr w' + 3) k = v \<and>
         get (set_prop (next_addr w' + 3) k v (snd (createContext this req2 res2 w')))
           (next_addr w + 3) j =
           get (snd (createContext this req2 res2 w')) (next_addr w + 3) j)"
    if q: "transport_pair w req2 res2" for req2 res2
  proof -
    have p': "transport_pair w' req2 res2"
      unfolding w'_def by (rule createContext_application(2) [OF a p q])
    from a' obtain pc' pr' ps' where t': "own w' this ''context'' = Some (JRef pc')"
      "own w' this ''request'' = Some (JRef pr')" "own w' this ''response'' = Some (JRef ps')"
      "this < next_addr w'"
      by (rule application_templates)
    from p' obtain url' where u': "own w' req2 ''url'' = Some url'" "req2 < next_addr w'"
      by (rule transport_url)
    note s' = createContext_store [OF t'(1,2,3,4) u'(2,1)]
    have old: "own w' (next_addr w) ''state'' = Some (JRef (next_addr w + 3))"
      "plain w' (next_addr w + 3)" "is_object w' (next_addr w + 3)"
      unfolding w'_def by (simp_all add: s)
    show ?thesis
      using old by (simp add: s' n' get_own_the get_plain)
  qed
  show ?thesis
    using first wiring state second
    unfolding Let_def w'_def [symmetric] n' by simp
qed

lemma app_world_application: "application app_world 7"
  unfolding app_world_def by (rule constructor_application [OF constructor_plain])

lemma app_world_next: "next_addr app_world = 12"
  by (simp add: app_world_def constructor_def Let_def split_def no_options_def boot_world_def)

lemma app_world_raw:
  "own app_world 3 ''url'' = Some (JStr ''/a'')" "own app_world 5 ''url'' = Some (JStr ''/b'')"
  "is_object app_world 3" "is_object app_world 4" "is_object app_world 5"
  "is_object app_world 6"
  by (simp_all add: app_world_def constructor_def constructor_fields_def Let_def split_def
      no_options_def,
      simp_all add: boot_world_def own_def is_object_def)

lemma app_world_pairs: "transport_pair app_world 3 4" "transport_pair app_world 5 6"
  "get app_world 3 ''url'' = JStr ''/a''"
  by (simp_all add: transport_pair_def app_world_raw app_world_next get_own)

theorem createContext_wiring_witness:
  "fst (createContext 7 3 4 app_world) = Inr 12 \<and>
   get (snd (createContext 7 3 4 app_world)) 12 ''app'' = JRef 7 \<and>
   get (snd (createContext 7 3 4 app_world)) 12 ''req'' = JRef 3 \<and>
   get (snd (createContext 7 3 4 app_world)) 12 ''res'' = JRef 4 \<and>
   get (snd (createContext 7 3 4 app_world)) 12 ''request'' = JRef 13 \<and>
   get (snd (createContext 7 3 4 app_world)) 12 ''response'' = JRef 14 \<and>
   get (snd (createContext 7 3 4 app_world)) 12 ''state'' = JRef 15 \<and>
   get (snd (createContext 7 3 4 app_world)) 12 ''originalUrl'' = JStr ''/a'' \<and>
   fst (createContext 7 5 6 (snd (createContext 7 3 4 app_world))) = Inr 16 \<and>
   get (snd (createContext 7 5 6 (snd (createContext 7 3 4 app_world)))) 16 ''state'' = JRef 19"
proof -
  note t = createContext_wiring [OF app_world_application app_world_pairs(1), unfolded Let_def]
  show ?thesis
    using t app_world_pairs(2)
    by (simp add: app_world_next app_world_pairs(3))
qed

section \<open>Properties of the request handler\<close>

lemma get_at_listeners: "get_at n (w\<lparr>listeners := l\<rparr>) a k = get_at n w a k"
  by (induction n arbitrary: a) (auto split: option.splits cell.splits)

lemma get_listeners [simp]: "get (w\<lparr>listeners := l\<rparr>) a k = get w a k"
  by (simp add: get_def get_at_listeners del: get_at.simps)

lemma handleRequest_closure_eq:
  "handleRequest_closure X this fn req res w0 =
     (case createContext this req res w0 of
        (Inl thrown, w) \<Rightarrow> (Inl thrown, w)
      | (Inr ctx, w) \<Rightarrow>
          (Inr (handleRequest (status_table X) (stringifier X) (onerror_method X)
                  (accessor_view X w ctx) (fn w)), w))"
  by (simp add: handleRequest_closure_def ctxStorage_run_def split: prod.splits sum.splits)

lemma callback_store:
  "\<exists>l. snd (callback X this w) = w\<lparr>listeners := l\<rparr>"
proof -
  have "\<exists>l. w = w\<lparr>listeners := l\<rparr>"
    by (rule exI [of _ "listeners w"]) simp
  then show ?thesis
    by (auto simp: callback_def Let_def split: jsval.splits sum.splits)
qed

lemma callback_copying:
  assumes "get w this ''compose'' = JFun f" and "composer_of X f = copying_compose run"
    and "middleware_list w this = Some xs"
  shows "fst (callback X this w) = Inr (handleRequest_closure X this (\<lambda>s. run xs))"
  using assms by (simp add: callback_def copying_compose_def middleware_list_def Let_def)

lemma callback_live:
  assumes "get w this ''compose'' = JFun f" and "composer_of X f = live_compose run"
    and "middleware_list w this = Some xs"
  shows "fst (callback X this w) =
     Inr (handleRequest_closure X this
            (\<lambda>s. run (case array_elements s (get w this ''middleware'') of
                         Some ys \<Rightarrow> ys | None \<Rightarrow> [])))"
  using assms by (simp add: callback_def live_compose_def middleware_list_def Let_def)

lemma callback_reads:
  "get (snd (callback X this w)) a k = get w a k"
  "middleware_list (snd (callback X this w)) a = middleware_list w a"
  "own (snd (callback X this w)) a k = own w a k"
  "is_object (snd (callback X this w)) a = is_object w a"
  "array_elements (snd (callback X this w)) v = array_elements w v"
  "next_addr (snd (callback X this w)) = next_addr w"
  using callback_store [of X this w] by (auto simp: middleware_list_def)

lemma use_appends:
  assumes f: "is_function fn" and m: "middleware_list w this = Some xs"
  shows "fst (use fn this w) = Inr (JRef this)"
    and "middleware_list (snd (use fn this w)) this = Some (xs @ [fn])"
proof -
  from m obtain a where a: "get w this ''middleware'' = JRef a" "heap w a = Some (Arr xs)"
    by (auto simp: middleware_list_def array_elements_def
        split: jsval.splits option.splits cell.splits)
  have u: "use fn this w = (Inr (JRef this), w\<lparr>heap := (heap w)(a \<mapsto> Arr (xs @ [fn]))\<rparr>)"
    by (rule use_result [OF f a])
  show "fst (use fn this w) = Inr (JRef this)"
    by (simp add: u)
  show "middleware_list (snd (use fn this w)) this = Some (xs @ [fn])"
    using a by (simp add: u middleware_list_def get_array_update array_elements_def)
qed

lemma use_reads:
  assumes "is_function g" and "middleware_list w this = Some xs"
  shows "get (snd (use g this w)) a k = get w a k"
    and "own (snd (use g this w)) a k = own w a k"
    and "is_object (snd (use g this w)) a = is_object w a"
    and "next_addr (snd (use g this w)) = next_addr w"
    and "array_elements (snd (use g this w)) (get w this ''middleware'') = Some (xs @ [g])"
    and "(array_elements (snd (use g this w)) v = None) = (array_elements w v = None)"
proof -
  from assms(2) obtain m where m: "get w this ''middleware'' = JRef m" "heap w m = Some (Arr xs)"
    by (auto simp: middleware_list_def array_elements_def
        split: jsval.splits option.splits cell.splits)
  note u = use_result [OF assms(1) m]
  show "get (snd (use g this w)) a k = get w a k"
    by (simp add: u get_array_update [OF m(2)])
  show "own (snd (use g this w)) a k = own w a k"
    by (simp add: u own_array_update [OF m(2)])
  show "is_object (snd (use g this w)) a = is_object w a"
    using m(2) by (simp add: u is_object_def)
  show "next_addr (snd (use g this w)) = next_addr w"
    by (simp add: u)
  show "array_elements (snd (use g this w)) (get w this ''middleware'') = Some (xs @ [g])"
    by (simp add: u m array_elements_def)
  show "(array_elements (snd (use g this w)) v = None) = (array_elements w v = None)"
    using m(2) by (auto simp: u array_elements_def split: jsval.splits option.splits cell.splits)
qed

text \<open>
  Claim C7, amended. \<^verbatim>\<open>callback()\<close> hands the composition strategy the middleware array
  itself, and \<^verbatim>\<open>use()\<close> appends to that array in place. With a strategy that copies the
  list when it composes, the handler that \<^verbatim>\<open>callback()\<close> returned runs the pipeline of the
  list as it was at that moment: a later \<^verbatim>\<open>use(g)\<close> succeeds and extends the list, a request
  served through the handler already returned still runs the pipeline without \<open>g\<close>, and
  only the handler of a later \<^verbatim>\<open>callback()\<close> runs the pipeline with \<open>g\<close>.
\<close>

theorem callback_composition:
  assumes "get w this ''compose'' = JFun f" and "composer_of X f = copying_compose run"
    and "middleware_list w this = Some xs" and "is_function g"
  shows "let w1 = snd (callback X this w); w2 = snd (use g this w1) in
     fst (callback X this w) = Inr (handleRequest_closure X this (\<lambda>s. run xs)) \<and>
     fst (use g this w1) = Inr (JRef this) \<and>
     middleware_list w2 this = Some (xs @ [g]) \<and>
     handler_of (fst (callback X this w)) req res w2 =
       (case createContext this req res w2 of
          (Inl thrown, w3) \<Rightarrow> (Inl thrown, w3)
        | (Inr ctx, w3) \<Rightarrow>
            (Inr (handleRequest (status_table X) (stringifier X) (onerror_method X)
                    (accessor_view X w3 ctx) (run xs)), w3)) \<and>
     fst (callback X this w2) = Inr (handleRequest_closure X this (\<lambda>s. run (xs @ [g])))"
proof -
  define w1 where "w1 = snd (callback X this w)"
  define w2 where "w2 = snd (use g this w1)"
  have h: "fst (callback X this w) = Inr (handleRequest_closure X this (\<lambda>s. run xs))"
    by (rule callback_copying [OF assms(1,2,3)])
  have m1: "middleware_list w1 this = Some xs"
    by (simp add: w1_def callback_reads assms(3))
  have u: "fst (use g this w1) = Inr (JRef this)" "middleware_list w2 this = Some (xs @ [g])"
    using use_appends [OF assms(4) m1] by (simp_all add: w2_def)
  have c1: "get w1 this ''compose'' = JFun f"
    by (simp add: w1_def callback_reads assms(1))
  have c2: "get w2 this ''compose'' = JFun f"
    by (simp add: w2_def use_reads(1) [OF assms(4) m1] c1)
  have h2: "fst (callback X this w2) = Inr (handleRequest_closure X this (\<lambda>s. run (xs @ [g])))"
    by (rule callback_copying [OF c2 assms(2) u(2)])
  show ?thesis
    unfolding Let_def w1_def [symmetric] w2_def [symmetric]
    using h u h2 by (simp add: handler_of_def handleRequest_closure_eq)
qed

lemma application_callback [simp]:
  "application (snd (callback X this w)) a = application w a"
  "transport_pair (snd (callback X this w)) req res = transport_pair w req res"
  by (auto simp: application_def setting_present_def template_present_def transport_pair_def
      callback_reads split: option.splits jsval.splits)

lemma application_use:
  assumes "is_function g" and "middleware_list w this = Some xs"
  shows "application (snd (use g this w)) a = application w a"
    and "transport_pair (snd (use g this w)) req res = transport_pair w req res"
  by (auto simp: application_def setting_present_def template_present_def transport_pair_def
      use_reads [OF assms] split: option.splits jsval.splits)

lemma handleRequest_closure_served:
  assumes a: "application w this" and p: "transport_pair w req res"
  shows "fst (handleRequest_closure X this fn req res w) =
     Inr (handleRequest (status_table X) (stringifier X) (onerror_method X)
            (accessor_view X (snd (createContext this req res w)) (next_addr w))
            (fn (snd (createContext this req res w))))"
    and "m < next_addr w \<Longrightarrow>
      array_elements (snd (createContext this req res w)) (JRef m) = array_elements w (JRef m)"
proof -
  from a obtain pc pr ps where t: "own w this ''context'' = Some (JRef pc)"
    "own w this ''request'' = Some (JRef pr)" "own w this ''response'' = Some (JRef ps)"
    "this < next_addr w"
    by (rule application_templates)
  from p obtain url where u: "own w req ''url'' = Some url" "req < next_addr w"
    by (rule transport_url)
  note s = createContext_store [OF t(1,2,3,4) u(2,1)]
  have "fst (createContext this req res w) = Inr (next_addr w)"
    by (rule s(1))
  then obtain w' where e: "createContext this req res w = (Inr (next_addr w), w')"
    by (cases "createContext this req res w") auto
  show "fst (handleRequest_closure X this fn req res w) =
     Inr (handleRequest (status_table X) (stringifier X) (onerror_method X)
            (accessor_view X (snd (createContext this req res w)) (next_addr w))
            (fn (snd (createContext this req res w))))"
    by (simp add: handleRequest_closure_eq e)
  show "array_elements (snd (createContext this req res w)) (JRef m) = array_elements w (JRef m)"
    if "m < next_addr w"
    by (rule s(6) [OF that])
qed

lemma app_world_reads:
  "get app_world 7 ''compose'' = JFun StockCompose" "get app_world 7 ''middleware'' = JRef 8"
  using constructor_get(6,7) [OF constructor_plain]
  by (simp_all add: app_world_def no_options_def js_or_def)

lemma live_app_parts:
  "status_table live_app = std_empty" "stringifier live_app = json_undefined"
  "onerror_method live_app = quiet_hook" "accessor_view live_app w a = fresh_ctx"
  "composer_of live_app f = live_compose (chain greeter)"
  by (simp_all add: live_app_def example_collaborators_def)

lemma copy_app_parts:
  "status_table copy_app = std_empty" "stringifier copy_app = json_undefined"
  "onerror_method copy_app = quiet_hook" "accessor_view copy_app w a = fresh_ctx"
  "composer_of copy_app f = copying_compose (chain greeter)"
  by (simp_all add: copy_app_def example_collaborators_def)

lemma answers:
  "handleRequest std_empty json_undefined quiet_hook fresh_ctx (chain greeter []) =
     (Fulfilled,
      fresh_ctx\<lparr>res_statusCode := 404,
        effects := [OnFinished, Assign ''type'' (JStr ''text''), Assign ''length'' (JNum 9),
                    End (Some ''Not Found'')]\<rparr>)"
  "handleRequest std_empty json_undefined quiet_hook fresh_ctx (chain greeter [JFun (UserFn 0)]) =
     (Fulfilled,
      fresh_ctx\<lparr>res_statusCode := 200, ctx_body := JStr ''hello'',
        effects := [OnFinished, End (Some ''hello'')]\<rparr>)"
  by (simp_all add: handleRequest_def Let_def respond_def fresh_ctx_def emit_def std_empty_def
      ctx_status_def nullish_def greeter_def)

lemma after_use:
  fixes X :: collaborators
  defines "w1 \<equiv> snd (callback X 7 app_world)"
  defines "w2 \<equiv> snd (use (JFun (UserFn 0)) 7 w1)"
  shows "application w1 7" and "transport_pair w1 3 4"
    and "application w2 7" and "transport_pair w2 3 4"
    and "array_elements w1 (JRef 8) = Some []"
    and "array_elements w2 (JRef 8) = Some [JFun (UserFn 0)]"
    and "next_addr w1 = 12" and "next_addr w2 = 12"
proof -
  have m1: "middleware_list w1 7 = Some []"
    by (simp add: w1_def callback_reads middleware_list_app_world)
  have f: "is_function (JFun (UserFn 0))"
    by simp
  show "application w1 7" "transport_pair w1 3 4"
    by (simp_all add: w1_def app_world_application app_world_pairs)
  then show "application w2 7" "transport_pair w2 3 4"
    by (simp_all add: w2_def application_use [OF f m1])
  have g1: "get w1 7 ''middleware'' = JRef 8"
    by (simp add: w1_def callback_reads app_world_reads)
  show "array_elements w1 (JRef 8) = Some []"
    using m1 by (simp add: middleware_list_def g1)
  show "array_elements w2 (JRef 8) = Some [JFun (UserFn 0)]"
    using use_reads(5) [OF f m1] by (simp add: w2_def g1)
  show "next_addr w1 = 12"
    by (simp add: w1_def callback_reads app_world_next)
  then show "next_addr w2 = 12"
    by (simp add: w2_def use_reads(4) [OF f m1])
qed

text \<open>
  Claim C7, as stated (middleware appended by \<^verbatim>\<open>use()\<close> after \<^verbatim>\<open>callback()\<close> does not
  affect requests served through the handler already returned), fails for a strategy that
  keeps the reference it was handed and reads the array when the composed function is
  called: \<^verbatim>\<open>callback\<close> passes \<^verbatim>\<open>this.middleware\<close> and makes no copy. The Application has no
  middleware when \<^verbatim>\<open>callback()\<close> is called; the handler answers 404 with \<^verbatim>\<open>Not Found\<close>
  before \<^verbatim>\<open>use(greeter)\<close> and 200 with \<^verbatim>\<open>hello\<close> after it.
\<close>

theorem callback_composition_counterexample:
  "fst (handler_of (fst (callback live_app 7 app_world)) 3 4 (snd (callback live_app 7 app_world))) =
     Inr (Fulfilled,
          fresh_ctx\<lparr>res_statusCode := 404,
            effects := [OnFinished, Assign ''type'' (JStr ''text''), Assign ''length'' (JNum 9),
                        End (Some ''Not Found'')]\<rparr>) \<and>
   fst (handler_of (fst (callback live_app 7 app_world)) 3 4
          (snd (use (JFun (UserFn 0)) 7 (snd (callback live_app 7 app_world))))) =
     Inr (Fulfilled,
          fresh_ctx\<lparr>res_statusCode := 200, ctx_body := JStr ''hello'',
            effects := [OnFinished, End (Some ''hello'')]\<rparr>)"
proof -
  have c: "composer_of live_app StockCompose = live_compose (chain greeter)"
    by (rule live_app_parts)
  have h: "fst (callback live_app 7 app_world) =
     Inr (handleRequest_closure live_app 7
            (\<lambda>s. chain greeter (case array_elements s (JRef 8) of Some ys \<Rightarrow> ys | None \<Rightarrow> [])))"
    using callback_live [OF app_world_reads(1) c middleware_list_app_world]
    by (simp add: app_world_reads)
  note s = after_use [of live_app]
  show ?thesis
    by (simp add: h handler_of_def handleRequest_closure_served [OF s(1,2)]
        handleRequest_closure_served [OF s(3,4)] s live_app_parts answers)
qed

theorem callback_composition_witness:
  "fst (handler_of (fst (callback copy_app 7 app_world)) 3 4
          (snd (use (JFun (UserFn 0)) 7 (snd (callback copy_app 7 app_world))))) =
     Inr (Fulfilled,
          fresh_ctx\<lparr>res_statusCode := 404,
            effects := [OnFinished, Assign ''type'' (JStr ''text''), Assign ''length'' (JNum 9),
                        End (Some ''Not Found'')]\<rparr>) \<and>
   fst (handler_of
          (fst (callback copy_app 7
                  (snd (use (JFun (UserFn 0)) 7 (snd (callback copy_app 7 app_world))))))
          3 4 (snd (use (JFun (UserFn 0)) 7 (snd (callback copy_app 7 app_world))))) =
     Inr (Fulfilled,
          fresh_ctx\<lparr>res_statusCode := 200, ctx_body := JStr ''hello'',
            effects := [OnFinished, End (Some ''hello'')]\<rparr>)"
proof -
  have c: "composer_of copy_app StockCompose = copying_compose (chain greeter)"
    by (rule copy_app_parts)
  have f: "is_function (JFun (UserFn 0))"
    by simp
  note t = callback_composition [OF app_world_reads(1) c middleware_list_app_world f,
      unfolded Let_def, of 3 4]
  note s = after_use [of copy_app]
  show ?thesis
    using t
    by (simp add: handler_of_def handleRequest_closure_served [OF s(3,4)] s copy_app_parts
        answers)
qed

end
